theory Spec2Isabelle
  imports Main "HOL-Library.Word" "HOL-Library.Multiset"
begin

section \<open>Data model (main.go, lines 20-34)\<close>

text \<open>
  Go's \<^verbatim>\<open>int\<close> is a 64-bit two's complement integer on the targets the daemon is
  built for, so the fields of \<^verbatim>\<open>resolution\<close> are 64-bit words: \<^verbatim>\<open>W * H\<close> wraps
  around, and \<^verbatim>\<open>>\<close> on the products is the signed comparison of \<open>sint\<close>.
\<close>

record resolution =
  W :: "64 word"
  H :: "64 word"

definition pixels :: "resolution \<Rightarrow> 64 word" where
  "pixels r = W r * H r"

text \<open>The struct \<^verbatim>\<open>output\<close>; the word is reserved in Isabelle, hence the suffix.\<close>

record output_rec =
  Name :: string
  Connected :: bool
  Primary :: bool
  Resolutions :: "resolution list"

text \<open>The zero value of \<^verbatim>\<open>var primary output\<close>.\<close>

definition zero_output :: output_rec where
  "zero_output = \<lparr>Name = [], Connected = False, Primary = False, Resolutions = []\<rparr>"

text \<open>The hardcoded \<^verbatim>\<open>resolution{1920, 1080}\<close>.\<close>

definition fallback :: resolution where
  "fallback = \<lparr>W = 1920, H = 1080\<rparr>"

section \<open>The two regular expressions (lines 36-39)\<close>

text \<open>
  Go's \<^verbatim>\<open>\s\<close> is the ASCII class tab, newline, form feed, carriage return, space;
  \<^verbatim>\<open>\S\<close> is its complement and \<^verbatim>\<open>\d\<close> is \<^verbatim>\<open>[0-9]\<close>. Both expressions are
  anchored at the start of the line, and every repetition in them is followed by a
  character outside its own class, so the leftmost-first match takes each run maximal:
  the matchers below read the runs with \<open>takeWhile\<close> and \<open>dropWhile\<close>.
\<close>

definition is_space :: "char \<Rightarrow> bool" where
  "is_space c = (c = CHR 0x09 \<or> c = CHR 0x0A \<or> c = CHR 0x0C \<or> c = CHR 0x0D \<or> c = CHR 0x20)"

definition is_digit :: "char \<Rightarrow> bool" where
  "is_digit c = (48 \<le> (of_char c :: nat) \<and> (of_char c :: nat) \<le> 57)"

definition has_prefix :: "string \<Rightarrow> string \<Rightarrow> bool" where
  "has_prefix p s = (take (length p) s = p)"

text \<open>
  \<^verbatim>\<open>outputRe = ^(\S+)\s+(connected|disconnected)\s*(primary)?\s*\<close>.
  The result is the triple of submatches \<^verbatim>\<open>m[1], m[2], m[3]\<close>; a group that took no
  part in the match is the empty string, as \<^verbatim>\<open>FindStringSubmatch\<close> returns it.
\<close>

definition outputRe :: "string \<Rightarrow> (string \<times> string \<times> string) option" where
  "outputRe line =
     (let name = takeWhile (\<lambda>c. \<not> is_space c) line;
          r1 = dropWhile (\<lambda>c. \<not> is_space c) line;
          r2 = dropWhile is_space r1
      in if name = [] \<or> takeWhile is_space r1 = [] then None
         else if has_prefix ''connected'' r2 then
           Some (name, ''connected'',
                 if has_prefix ''primary'' (dropWhile is_space (drop 9 r2)) then ''primary'' else [])
         else if has_prefix ''disconnected'' r2 then
           Some (name, ''disconnected'',
                 if has_prefix ''primary'' (dropWhile is_space (drop 12 r2)) then ''primary'' else [])
         else None)"

text \<open>
  \<^verbatim>\<open>modeRe = ^\s+(\d+)x(\d+)\s+\<close>: leading white space, two digit runs around an
  \<^verbatim>\<open>x\<close>, and at least one white space character after the second run.
\<close>

definition modeRe :: "string \<Rightarrow> (string \<times> string) option" where
  "modeRe line =
     (let r1 = dropWhile is_space line;
          d1 = takeWhile is_digit r1;
          r2 = dropWhile is_digit r1;
          d2 = takeWhile is_digit (drop 1 r2);
          r3 = dropWhile is_digit (drop 1 r2)
      in if takeWhile is_space line = [] \<or> d1 = [] \<or> \<not> has_prefix ''x'' r2 \<or> d2 = []
            \<or> takeWhile is_space r3 = []
         then None else Some (d1, d2))"

text \<open>
  \<^verbatim>\<open>strconv.Atoi\<close> on a run of decimal digits, its error ignored by the caller: the
  decimal value, or the largest \<^verbatim>\<open>int\<close> when the value does not fit.
\<close>

definition atoi :: "string \<Rightarrow> 64 word" where
  "atoi ds = word_of_nat (min (foldl (\<lambda>n c. 10 * n + (of_char c - 48)) 0 ds) (2 ^ 63 - 1))"

section \<open>parseXrandr (lines 41-74)\<close>

datatype error = QueryError

text \<open>
  The loop body for one line of the scanner. The state is the slice \<^verbatim>\<open>outputs\<close>
  and the pointer \<^verbatim>\<open>cur\<close>. The pointer is taken anew after every \<^verbatim>\<open>append\<close> to
  \<^verbatim>\<open>outputs\<close>, so it always addresses an element of the current backing array: it is
  modelled as the index of that element, \<open>None\<close> for \<^verbatim>\<open>nil\<close>.
\<close>

definition scan_line :: "output_rec list \<times> nat option \<Rightarrow> string \<Rightarrow> output_rec list \<times> nat option" where
  "scan_line s line =
     (case s of (outputs, cur) \<Rightarrow>
       (case outputRe line of
          Some (m1, m2, m3) \<Rightarrow>
            (let outputs' = outputs @ [\<lparr>Name = m1, Connected = (m2 = ''connected''),
                                        Primary = (m3 = ''primary''), Resolutions = []\<rparr>]
             in (outputs', Some (length outputs' - 1)))
        | None \<Rightarrow>
            (case cur of
               None \<Rightarrow> (outputs, cur)
             | Some i \<Rightarrow>
                 (case modeRe line of
                    Some (d1, d2) \<Rightarrow>
                      (outputs[i := (outputs ! i)\<lparr>Resolutions :=
                          Resolutions (outputs ! i) @ [\<lparr>W = atoi d1, H = atoi d2\<rparr>]\<rparr>], cur)
                  | None \<Rightarrow> (outputs, cur)))))"

text \<open>The scanner loop over the lines it delivers, from \<^verbatim>\<open>outputs = nil, cur = nil\<close>.\<close>

definition parseLines :: "string list \<Rightarrow> output_rec list" where
  "parseLines ls = fst (foldl scan_line ([], None) ls)"

text \<open>
  \<^verbatim>\<open>parseXrandr\<close> on the outcome of \<^verbatim>\<open>xrandr --query\<close>: the command's error, or
  the lines of its output as \<^verbatim>\<open>bufio.Scanner\<close> hands them over.
\<close>

definition parseXrandr :: "error + string list \<Rightarrow> error + output_rec list" where
  "parseXrandr q = (case q of Inl e \<Rightarrow> Inl e | Inr ls \<Rightarrow> Inr (parseLines ls))"

section \<open>Maps with boolean values\<close>

text \<open>
  Every \<^verbatim>\<open>map[K]bool\<close> of the program only ever stores \<^verbatim>\<open>true\<close>, and a missing
  key reads as \<^verbatim>\<open>false\<close>: such a map is the list of its keys, without repetition.
\<close>

definition map_put :: "'k list \<Rightarrow> 'k \<Rightarrow> 'k list" where
  "map_put m k = (if k \<in> set m then m else m @ [k])"

definition map_get :: "'k list \<Rightarrow> 'k \<Rightarrow> bool" where
  "map_get m k = (k \<in> set m)"

definition map_delete :: "'k list \<Rightarrow> 'k \<Rightarrow> 'k list" where
  "map_delete m k = removeAll k m"

section \<open>bestCommonResolution (lines 76-120)\<close>

text \<open>
  Two things are left open by Go: the order in which \<^verbatim>\<open>range\<close> visits the keys of a
  map, and how \<^verbatim>\<open>sort.Slice\<close> (not stable) arranges elements that compare equal. Both
  are parameters of the model. \<open>mapRange\<close> is the order of the loop that fills
  \<^verbatim>\<open>shared\<close>, the only loop over a map whose order reaches a result; \<open>sortSlice\<close>
  takes the \<^verbatim>\<open>less\<close> function as an argument on elements.
\<close>

record go_env =
  mapRange :: "resolution list \<Rightarrow> resolution list"
  sortSlice :: "(resolution \<Rightarrow> resolution \<Rightarrow> bool) \<Rightarrow> resolution list \<Rightarrow> resolution list"

text \<open>The \<^verbatim>\<open>less\<close> closure of line 116: more pixels first.\<close>

definition pixels_less :: "resolution \<Rightarrow> resolution \<Rightarrow> bool" where
  "pixels_less a b = (sint (pixels a) > sint (pixels b))"

text \<open>
  Lines 91-99: one round of the intersection, with the map \<^verbatim>\<open>have\<close> of one
  output. The inner loop deletes from \<^verbatim>\<open>common\<close> while it ranges over it; it visits
  every key once and only ever deletes the key it visits, so the map it leaves does not
  depend on the order.
\<close>

definition intersect_with :: "resolution list \<Rightarrow> output_rec \<Rightarrow> resolution list" where
  "intersect_with common ou =
     (let have = foldl map_put [] (Resolutions ou)
      in foldl (\<lambda>c r. if \<not> map_get have r then map_delete c r else c) common common)"

definition bestCommonResolution :: "go_env \<Rightarrow> output_rec list \<Rightarrow> resolution" where
  "bestCommonResolution env outputs =
     (case outputs of
        [] \<Rightarrow> fallback
      | o0 # rest \<Rightarrow>
          (let common = foldl map_put [] (Resolutions o0);
               common = foldl intersect_with common rest;
               shared = foldl (\<lambda>s r. s @ [r]) [] (mapRange env common)
           in if length shared = 0 then
                (case Resolutions (last outputs) of
                   r # _ \<Rightarrow> r
                 | [] \<Rightarrow> fallback)
              else
                sortSlice env pixels_less shared ! 0))"

section \<open>connectedSet (lines 144-152)\<close>

definition connectedSet :: "output_rec list \<Rightarrow> string list" where
  "connectedSet outputs =
     foldl (\<lambda>s ou. if Connected ou then map_put s (Name ou) else s) [] outputs"

section \<open>One pass of the loop in run (lines 178-255)\<close>

text \<open>
  What the daemon does to the display: the call \<^verbatim>\<open>mirror(primary, externals, res)\<close>
  of line 220, and the \<^verbatim>\<open>xrandr --output o.Name --mode native --primary\<close> command of
  lines 239-246. A failure of either command is only logged.
\<close>

datatype action =
  is_MirrorAction: MirrorAction output_rec "output_rec list" resolution
| is_RestoreAction: RestoreAction output_rec resolution

text \<open>
  Lines 186-191 and 227-232. The order in which the names are collected is the order of
  a \<^verbatim>\<open>range\<close> over a map; only the log line and the test \<^verbatim>\<open>len(...) > 0\<close> read
  these slices, so the model collects the names in the order of the key list.
\<close>

definition newOutputs :: "string list \<Rightarrow> string list \<Rightarrow> string list" where
  "newOutputs prevSet curSet = filter (\<lambda>name. \<not> map_get prevSet name) curSet"

definition removed :: "string list \<Rightarrow> string list \<Rightarrow> string list" where
  "removed prevSet curSet = filter (\<lambda>name. \<not> map_get curSet name) prevSet"

text \<open>
  Lines 197-215: the loop over \<^verbatim>\<open>cur\<close> that fills \<^verbatim>\<open>primary\<close>, \<^verbatim>\<open>externals\<close>
  and \<^verbatim>\<open>all\<close>, then the replacement of a \<^verbatim>\<open>primary\<close> whose name is empty.
\<close>

definition identify_step ::
  "output_rec \<times> output_rec list \<times> output_rec list \<Rightarrow> output_rec
     \<Rightarrow> output_rec \<times> output_rec list \<times> output_rec list" where
  "identify_step s ou =
     (case s of (primary, externals, all) \<Rightarrow>
        if \<not> Connected ou then (primary, externals, all)
        else if Primary ou then (ou, externals, all @ [ou])
        else (primary, externals @ [ou], all @ [ou]))"

definition identify :: "output_rec list \<Rightarrow> output_rec \<times> output_rec list \<times> output_rec list" where
  "identify cur =
     (case foldl identify_step (zero_output, [], []) cur of (primary, externals, all) \<Rightarrow>
        (case all of
           a # rest \<Rightarrow> if Name primary = [] then (a, rest, all) else (primary, externals, all)
         | [] \<Rightarrow> (primary, externals, all)))"

text \<open>Lines 193-224.\<close>

definition mirror_part :: "go_env \<Rightarrow> string list \<Rightarrow> output_rec list \<Rightarrow> action list" where
  "mirror_part env prevSet cur =
     (if length (newOutputs prevSet (connectedSet cur)) > 0 then
        (case identify cur of (primary, externals, all) \<Rightarrow>
           if length externals > 0
           then [MirrorAction primary externals (bestCommonResolution env all)]
           else [])
      else [])"

text \<open>Lines 235-251: the loop that stops at the first output it restores.\<close>

fun restore_loop :: "output_rec list \<Rightarrow> action list" where
  "restore_loop [] = []"
| "restore_loop (ou # rest) =
     (if Connected ou \<and> Primary ou \<and> length (Resolutions ou) > 0
      then [RestoreAction ou (Resolutions ou ! 0)]
      else restore_loop rest)"

definition restore_part :: "string list \<Rightarrow> output_rec list \<Rightarrow> action list" where
  "restore_part prevSet cur =
     (if length (removed prevSet (connectedSet cur)) > 0 then restore_loop cur else [])"

text \<open>
  The body of the loop after the \<^verbatim>\<open>select\<close>, on the outcome of \<^verbatim>\<open>parseXrandr\<close>:
  the commands issued, in order, and the new \<^verbatim>\<open>(prev, prevSet)\<close>. A failed read
  logs and \<^verbatim>\<open>continue\<close>s.
\<close>

definition tick ::
  "go_env \<Rightarrow> output_rec list \<times> string list \<Rightarrow> error + output_rec list
     \<Rightarrow> action list \<times> (output_rec list \<times> string list)" where
  "tick env st r =
     (case st of (prev, prevSet) \<Rightarrow>
        (case r of
           Inl err \<Rightarrow> ([], (prev, prevSet))
         | Inr cur \<Rightarrow>
             (mirror_part env prevSet cur @ restore_part prevSet cur,
              (cur, connectedSet cur))))"

section \<open>run (lines 154-257)\<close>

text \<open>
  What the \<^verbatim>\<open>select\<close> of each iteration receives: a signal, or a tick of the timer
  together with the outcome of the \<^verbatim>\<open>parseXrandr\<close> call that follows it.
\<close>

datatype event = Signal | Ticker "error + output_rec list"

text \<open>
  The loop only ends on a signal. On a finite sequence of events it has either returned
  \<^verbatim>\<open>nil\<close>, or it waits in the \<^verbatim>\<open>select\<close> with the state it retains.
\<close>

datatype loop_status = Returned | Waiting "output_rec list \<times> string list"

fun run_loop ::
  "go_env \<Rightarrow> output_rec list \<times> string list \<Rightarrow> event list \<Rightarrow> action list \<times> loop_status" where
  "run_loop env st [] = ([], Waiting st)"
| "run_loop env st (Signal # evs) = ([], Returned)"
| "run_loop env st (Ticker r # evs) =
     (case tick env st r of (acts, st') \<Rightarrow>
        (case run_loop env st' evs of (acts', status) \<Rightarrow> (acts @ acts', status)))"

definition run ::
  "go_env \<Rightarrow> error + output_rec list \<Rightarrow> event list \<Rightarrow> error + action list \<times> loop_status" where
  "run env first evs =
     (case first of
        Inl err \<Rightarrow> Inl err
      | Inr prev \<Rightarrow> Inr (run_loop env (prev, connectedSet prev) evs))"

section \<open>The Go runtime: what the model assumes of it, and one instance\<close>

text \<open>
  A \<^verbatim>\<open>range\<close> over a map visits every key once, in some order; \<^verbatim>\<open>sort.Slice\<close>
  permutes the slice so that no element is \<^verbatim>\<open>less\<close> than one before it.
\<close>

definition env_ok :: "go_env \<Rightarrow> bool" where
  "env_ok env =
     ((\<forall>ks. mset (mapRange env ks) = mset ks) \<and>
      (\<forall>xs. mset (sortSlice env pixels_less xs) = mset xs) \<and>
      (\<forall>xs. sorted_wrt (\<lambda>a b. \<not> pixels_less b a) (sortSlice env pixels_less xs)))"

text \<open>
  One runtime that meets it: keys are visited in the order of their insertion, and the
  sort is the insertion sort that Go's \<^verbatim>\<open>sort\<close> package uses on short slices.
\<close>

fun insert_by :: "('a \<Rightarrow> 'a \<Rightarrow> bool) \<Rightarrow> 'a \<Rightarrow> 'a list \<Rightarrow> 'a list" where
  "insert_by lt x [] = [x]"
| "insert_by lt x (y # ys) = (if lt x y then x # y # ys else y # insert_by lt x ys)"

definition insertion_sort :: "('a \<Rightarrow> 'a \<Rightarrow> bool) \<Rightarrow> 'a list \<Rightarrow> 'a list" where
  "insertion_sort lt xs = foldl (\<lambda>acc x. insert_by lt x acc) [] xs"

definition example_env :: go_env where
  "example_env = \<lparr>mapRange = (\<lambda>ks. ks), sortSlice = insertion_sort\<rparr>"

section \<open>Notions of the specification\<close>

text \<open>
  The intersection of the candidates' resolution sets, two resolutions being equal when
  width and height both are.
\<close>

definition common_resolutions :: "output_rec list \<Rightarrow> resolution set" where
  "common_resolutions outputs = (\<Inter>ou \<in> set outputs. set (Resolutions ou))"

text \<open>
  The pixel area of the specification: width times height, as integers. It fits Go's
  \<^verbatim>\<open>int\<close> when it lies between \<open>- 2 ^ 63\<close> and \<open>2 ^ 63 - 1\<close>.
\<close>

definition area :: "resolution \<Rightarrow> int" where
  "area r = sint (W r) * sint (H r)"

definition fits_int :: "int \<Rightarrow> bool" where
  "fits_int k = (- (2 ^ 63) \<le> k \<and> k < 2 ^ 63)"

text \<open>
  The parser as the specification describes it. A header line is a line that
  \<^verbatim>\<open>outputRe\<close> matches, a mode line one that \<^verbatim>\<open>modeRe\<close> matches. Every header line
  gives one output record, in the order of the input; its resolutions are those of the
  mode lines between it and the next header line, in the order of the input. Lines before
  the first header line give nothing.
\<close>

definition mode_of :: "string \<Rightarrow> resolution list" where
  "mode_of l = (case modeRe l of Some (d1, d2) \<Rightarrow> [\<lparr>W = atoi d1, H = atoi d2\<rparr>] | None \<Rightarrow> [])"

definition modes_of :: "string list \<Rightarrow> resolution list" where
  "modes_of ls = concat (map mode_of ls)"

fun parse_ref :: "string list \<Rightarrow> output_rec list" where
  "parse_ref [] = []"
| "parse_ref (l # ls) =
     (case outputRe l of
        Some (m1, m2, m3) \<Rightarrow>
          \<lparr>Name = m1, Connected = (m2 = ''connected''), Primary = (m3 = ''primary''),
           Resolutions = modes_of (takeWhile (\<lambda>l'. outputRe l' = None) ls)\<rparr> # parse_ref ls
      | None \<Rightarrow> parse_ref ls)"

text \<open>
  The data-model invariant of the specification: no connected output has an empty
  resolutions list.
\<close>

definition resolutions_invariant :: "output_rec list \<Rightarrow> bool" where
  "resolutions_invariant outputs = (\<not> list_ex (\<lambda>ou. Connected ou \<and> Resolutions ou = []) outputs)"

text \<open>
  The restore decision as the specification words it: the first connected output with
  the primary flag or, when no connected output has the flag, the first connected output;
  restored to the first entry of its resolutions list when it has one.
\<close>

definition restore_claimed :: "output_rec list \<Rightarrow> action list" where
  "restore_claimed cur =
     (case (case find (\<lambda>ou. Connected ou \<and> Primary ou) cur of
              Some ou \<Rightarrow> Some ou
            | None \<Rightarrow> find Connected cur) of
        Some ou \<Rightarrow> (case Resolutions ou of r # _ \<Rightarrow> [RestoreAction ou r] | [] \<Rightarrow> [])
      | None \<Rightarrow> [])"

text \<open>
  The input condition under which that invariant holds: every header line of a connected
  output is followed by a mode line before the next header line.
\<close>

fun connected_headers_have_modes :: "string list \<Rightarrow> bool" where
  "connected_headers_have_modes [] = True"
| "connected_headers_have_modes (l # ls) =
     (case outputRe l of
        Some (m1, m2, m3) \<Rightarrow>
          (if m2 = ''connected''
           then list_ex (\<lambda>l'. modeRe l' \<noteq> None) (takeWhile (\<lambda>l'. outputRe l' = None) ls)
           else True)
          \<and> connected_headers_have_modes ls
      | None \<Rightarrow> connected_headers_have_modes ls)"

section \<open>Lemmas on bestCommonResolution\<close>

lemma set_foldl_map_put: "set (foldl map_put acc rs) = set acc \<union> set rs"
  by (induction rs arbitrary: acc) (auto simp: map_put_def)

lemma set_foldl_delete:
  "set (foldl (\<lambda>c r. if \<not> map_get have r then map_delete c r else c) c xs)
     = set c - (set xs - set have)"
  by (induction xs arbitrary: c) (auto simp: map_get_def map_delete_def)

lemma set_intersect_with: "set (intersect_with common ou) = set common \<inter> set (Resolutions ou)"
  by (auto simp: intersect_with_def Let_def set_foldl_delete set_foldl_map_put)

lemma set_foldl_intersect_with:
  "set (foldl intersect_with common rest) = set common \<inter> (\<Inter>ou \<in> set rest. set (Resolutions ou))"
  by (induction rest arbitrary: common) (auto simp: set_intersect_with)

lemma foldl_append_each: "foldl (\<lambda>s r. s @ [r]) acc xs = acc @ xs"
  by (induction xs arbitrary: acc) auto

lemma set_common_resolutions:
  "set (foldl intersect_with (foldl map_put [] (Resolutions o0)) rest) = common_resolutions (o0 # rest)"
  by (simp add: set_foldl_intersect_with set_foldl_map_put common_resolutions_def)

lemma sorted_first_most_pixels:
  assumes "sorted_wrt (\<lambda>a b. \<not> pixels_less b a) ys" and "r \<in> set ys"
  shows "sint (pixels r) \<le> sint (pixels (ys ! 0))"
proof (cases ys)
  case Nil
  with assms show ?thesis by simp
next
  case (Cons y rest)
  with assms show ?thesis by (auto simp: pixels_less_def)
qed

lemma insert_by_mset: "mset (insert_by lt x ys) = add_mset x (mset ys)"
  by (induction ys) auto

lemma insertion_sort_mset_aux: "mset (foldl (\<lambda>acc x. insert_by lt x acc) acc xs) = mset acc + mset xs"
  by (induction xs arbitrary: acc) (auto simp: insert_by_mset)

lemma set_insert_by: "set (insert_by lt x ys) = insert x (set ys)"
  by (induction ys) auto

lemma insert_by_sorted:
  "sorted_wrt (\<lambda>a b. \<not> pixels_less b a) ys \<Longrightarrow> sorted_wrt (\<lambda>a b. \<not> pixels_less b a) (insert_by pixels_less x ys)"
  by (induction ys) (auto simp: set_insert_by pixels_less_def)

lemma insertion_sort_sorted_aux:
  "sorted_wrt (\<lambda>a b. \<not> pixels_less b a) acc \<Longrightarrow>
   sorted_wrt (\<lambda>a b. \<not> pixels_less b a) (foldl (\<lambda>acc x. insert_by pixels_less x acc) acc xs)"
  by (induction xs arbitrary: acc) (auto simp: insert_by_sorted)

lemma env_ok_example: "env_ok example_env"
  by (simp add: env_ok_def example_env_def insertion_sort_def insertion_sort_mset_aux insertion_sort_sorted_aux)

lemma pixels_exact: "fits_int (area r) \<Longrightarrow> sint (pixels r) = area r"
proof -
  assume "fits_int (area r)"
  then have "signed_take_bit 63 (sint (W r) * sint (H r)) = sint (W r) * sint (H r)"
    by (simp add: fits_int_def area_def signed_take_bit_int_eq_self)
  then show ?thesis
    by (simp add: pixels_def area_def sint_word_ariths)
qed

lemma bestCommonResolution_most_pixels:
  assumes "env_ok env" and ne: "outputs \<noteq> []" and inter: "common_resolutions outputs \<noteq> {}"
  shows "bestCommonResolution env outputs \<in> common_resolutions outputs \<and>
         (\<forall>r \<in> common_resolutions outputs.
            sint (pixels r) \<le> sint (pixels (bestCommonResolution env outputs)))"
proof -
  from ne obtain o0 rest where outs: "outputs = o0 # rest" by (cases outputs) auto
  define common where "common = foldl intersect_with (foldl map_put [] (Resolutions o0)) rest"
  define shared where "shared = mapRange env common"
  define srtd where "srtd = sortSlice env pixels_less shared"
  have set_common: "set common = common_resolutions outputs"
    by (simp add: common_def outs set_common_resolutions)
  have "mset shared = mset common"
    using assms(1) by (simp add: shared_def env_ok_def)
  then have set_shared: "set shared = set common" by (rule mset_eq_setD)
  have "mset srtd = mset shared"
    using assms(1) by (simp add: srtd_def env_ok_def)
  then have set_srtd: "set srtd = set shared" by (rule mset_eq_setD)
  have srt: "sorted_wrt (\<lambda>a b. \<not> pixels_less b a) srtd"
    using assms(1) by (simp add: srtd_def env_ok_def)
  have shared_ne: "shared \<noteq> []"
    using inter set_common set_shared by auto
  have srtd_ne: "srtd \<noteq> []"
    using shared_ne set_srtd by auto
  have best: "bestCommonResolution env outputs = srtd ! 0"
    using shared_ne
    by (simp add: bestCommonResolution_def outs Let_def foldl_append_each
        common_def shared_def srtd_def)
  have mem: "srtd ! 0 \<in> set srtd"
    using srtd_ne by (cases srtd) auto
  have most: "\<forall>r \<in> set srtd. sint (pixels r) \<le> sint (pixels (srtd ! 0))"
    using srt by (auto intro: sorted_first_most_pixels)
  from mem most show ?thesis
    by (simp add: best set_srtd set_shared set_common [symmetric])
qed

section \<open>Lemmas on the parser\<close>

lemma modes_of_simps [simp]: "modes_of [] = []" "modes_of (l # ls) = mode_of l @ modes_of ls"
  by (simp_all add: modes_of_def)

lemma outputRe_not_modeRe: "outputRe l = Some m \<Longrightarrow> modeRe l = None"
  by (cases l) (auto simp: outputRe_def modeRe_def Let_def split: if_splits)

lemma scan_line_header:
  "outputRe l = Some (m1, m2, m3) \<Longrightarrow>
   scan_line (outs, c) l =
     (outs @ [\<lparr>Name = m1, Connected = (m2 = ''connected''), Primary = (m3 = ''primary''),
               Resolutions = []\<rparr>], Some (length outs))"
  by (simp add: scan_line_def Let_def)

lemma scan_line_no_cur: "outputRe l = None \<Longrightarrow> scan_line (outs, None) l = (outs, None)"
  by (simp add: scan_line_def)

lemma scan_line_body:
  "outputRe l = None \<Longrightarrow>
   scan_line (pre @ [ou], Some (length pre)) l =
     (pre @ [ou\<lparr>Resolutions := Resolutions ou @ mode_of l\<rparr>], Some (length pre))"
  by (simp add: scan_line_def mode_of_def split: option.splits)

lemma foldl_scan_line_cur:
  "fst (foldl scan_line (pre @ [ou], Some (length pre)) ls) =
     pre @ [ou\<lparr>Resolutions := Resolutions ou @ modes_of (takeWhile (\<lambda>l. outputRe l = None) ls)\<rparr>]
       @ parse_ref ls"
proof (induction ls arbitrary: pre ou)
  case Nil
  show ?case by simp
next
  case (Cons l ls)
  show ?case
  proof (cases "outputRe l")
    case None
    define ou' where "ou' = ou\<lparr>Resolutions := Resolutions ou @ mode_of l\<rparr>"
    have step: "scan_line (pre @ [ou], Some (length pre)) l = (pre @ [ou'], Some (length pre))"
      unfolding ou'_def by (rule scan_line_body [OF None])
    have upd: "ou'\<lparr>Resolutions := Resolutions ou' @ modes_of (takeWhile (\<lambda>l. outputRe l = None) ls)\<rparr>
         = ou\<lparr>Resolutions := Resolutions ou @ modes_of (takeWhile (\<lambda>l. outputRe l = None) (l # ls))\<rparr>"
      using None by (simp add: ou'_def)
    have "fst (foldl scan_line (pre @ [ou], Some (length pre)) (l # ls)) =
          fst (foldl scan_line (pre @ [ou'], Some (length pre)) ls)"
      by (simp only: foldl_Cons step)
    also have "\<dots> = pre @ [ou'\<lparr>Resolutions := Resolutions ou' @ modes_of (takeWhile (\<lambda>l. outputRe l = None) ls)\<rparr>]
       @ parse_ref ls"
      by (rule Cons.IH)
    finally show ?thesis
      using None by (simp only: upd parse_ref.simps option.case)
  next
    case (Some m)
    obtain m1 m2 m3 where m: "m = (m1, m2, m3)" by (cases m) auto
    define new where "new = \<lparr>Name = m1, Connected = (m2 = ''connected''), Primary = (m3 = ''primary''),
               Resolutions = []\<rparr>"
    have "fst (foldl scan_line (pre @ [ou], Some (length pre)) (l # ls)) =
          fst (foldl scan_line ((pre @ [ou]) @ [new], Some (length (pre @ [ou]))) ls)"
      using Some by (simp add: scan_line_header m new_def)
    also have "\<dots> = (pre @ [ou]) @ [new\<lparr>Resolutions := Resolutions new @ modes_of (takeWhile (\<lambda>l. outputRe l = None) ls)\<rparr>]
       @ parse_ref ls"
      by (rule Cons.IH)
    finally show ?thesis
      using Some by (simp add: m new_def)
  qed
qed

lemma foldl_scan_line_start: "fst (foldl scan_line ([], None) ls) = parse_ref ls"
proof (induction ls)
  case Nil
  show ?case by simp
next
  case (Cons l ls)
  show ?case
  proof (cases "outputRe l")
    case None
    then show ?thesis by (simp add: scan_line_no_cur Cons.IH)
  next
    case (Some m)
    obtain m1 m2 m3 where m: "m = (m1, m2, m3)" by (cases m) auto
    show ?thesis
      using Some foldl_scan_line_cur [of "[]" _ ls]
      by (simp add: m scan_line_header)
  qed
qed

lemma parseLines_parse_ref: "parseLines ls = parse_ref ls"
  by (simp add: parseLines_def foldl_scan_line_start)

lemma parse_ref_append_header:
  "outputRe h = Some m \<Longrightarrow> parse_ref (xs @ h # ys) = parse_ref xs @ parse_ref (h # ys)"
proof (induction xs)
  case Nil
  show ?case by simp
next
  case (Cons x xs)
  have tw: "takeWhile (\<lambda>l. outputRe l = None) (xs @ h # ys) = takeWhile (\<lambda>l. outputRe l = None) xs"
    using Cons.prems by (simp add: takeWhile_append takeWhile_eq_all_conv [THEN iffD2])
  show ?case
    using Cons.IH [OF Cons.prems] by (simp add: tw split: option.splits)
qed

lemma parse_ref_block:
  assumes "outputRe h = Some (m1, m2, m3)"
    and "list_all (\<lambda>l. outputRe l = None) body"
    and "rest = [] \<or> outputRe (hd rest) \<noteq> None"
  shows "parse_ref (h # body @ rest) =
           \<lparr>Name = m1, Connected = (m2 = ''connected''), Primary = (m3 = ''primary''),
            Resolutions = modes_of body\<rparr> # parse_ref (body @ rest)"
proof -
  have "takeWhile (\<lambda>l. outputRe l = None) (body @ rest) = body"
    using assms(2,3) by (cases rest) (auto simp: takeWhile_append list_all_iff)
  then show ?thesis using assms(1) by simp
qed

lemma parse_ref_no_header: "list_all (\<lambda>l. outputRe l = None) body \<Longrightarrow> parse_ref (body @ rest) = parse_ref rest"
  by (induction body) auto

lemma modes_of_empty: "modes_of body = [] \<longleftrightarrow> \<not> list_ex (\<lambda>l. modeRe l \<noteq> None) body"
  by (induction body) (auto simp: mode_of_def split: option.splits)

section \<open>Lemmas on one pass of the loop\<close>

lemma foldl_identify_step:
  "foldl identify_step (p, ext, al) cur =
     (case filter (\<lambda>ou. Connected ou \<and> Primary ou) cur of [] \<Rightarrow> p | x # xs \<Rightarrow> last (x # xs),
      ext @ filter (\<lambda>ou. Connected ou \<and> \<not> Primary ou) cur,
      al @ filter Connected cur)"
proof (induction cur arbitrary: p ext al)
  case Nil
  show ?case by simp
next
  case (Cons ou cur)
  have step: "identify_step (p, ext, al) ou =
      (if \<not> Connected ou then (p, ext, al)
       else if Primary ou then (ou, ext, al @ [ou])
       else (p, ext @ [ou], al @ [ou]))"
    by (simp add: identify_step_def)
  show ?case
    by (cases "filter (\<lambda>ou. Connected ou \<and> Primary ou) cur")
       (simp_all add: step Cons.IH)
qed

lemma identify_all: "snd (snd (identify cur)) = filter Connected cur"
  by (simp add: identify_def foldl_identify_step split: list.splits prod.splits)

lemma identify_eq:
  "identify cur =
     (let primary = (case filter (\<lambda>ou. Connected ou \<and> Primary ou) cur of [] \<Rightarrow> zero_output | x # xs \<Rightarrow> last (x # xs));
          al = filter Connected cur
      in case al of
           a # rest \<Rightarrow> if Name primary = [] then (a, rest, al)
                       else (primary, filter (\<lambda>ou. Connected ou \<and> \<not> Primary ou) cur, al)
         | [] \<Rightarrow> (primary, filter (\<lambda>ou. Connected ou \<and> \<not> Primary ou) cur, al))"
  by (simp add: identify_def foldl_identify_step Let_def)

lemma restore_loop_find:
  "restore_loop cur =
     (case find (\<lambda>ou. Connected ou \<and> Primary ou \<and> Resolutions ou \<noteq> []) cur of
        Some ou \<Rightarrow> [RestoreAction ou (hd (Resolutions ou))]
      | None \<Rightarrow> [])"
  by (induction cur) (auto simp: hd_conv_nth)

lemma tick_actions:
  "fst (tick env (prev, prevSet) (Inr cur)) = mirror_part env prevSet cur @ restore_part prevSet cur"
  by (simp add: tick_def)

lemma mirror_part_cases:
  "mirror_part env prevSet cur =
     (if newOutputs prevSet (connectedSet cur) \<noteq> [] \<and> fst (snd (identify cur)) \<noteq> []
      then [MirrorAction (fst (identify cur)) (fst (snd (identify cur)))
              (bestCommonResolution env (filter Connected cur))]
      else [])"
  using identify_all [of cur] by (auto simp: mirror_part_def split: prod.splits)

lemma restore_part_cases:
  "restore_part prevSet cur =
     (if removed prevSet (connectedSet cur) \<noteq> [] then restore_loop cur else [])"
  by (simp add: restore_part_def)

lemma filter_restore_mirror_part: "filter is_RestoreAction (mirror_part env prevSet cur) = []"
  by (simp add: mirror_part_cases)

lemma filter_mirror_restore_loop: "filter is_MirrorAction (restore_loop cur) = []"
  by (simp add: restore_loop_find split: option.splits)

lemma filter_restore_restore_loop: "filter is_RestoreAction (restore_loop cur) = restore_loop cur"
  by (simp add: restore_loop_find split: option.splits)

lemma filter_mirror_restore_part: "filter is_MirrorAction (restore_part prevSet cur) = []"
  by (simp add: restore_part_cases filter_mirror_restore_loop)

lemma identify_fallback:
  "filter Connected cur = a # rest \<Longrightarrow>
   Name (case filter (\<lambda>ou. Connected ou \<and> Primary ou) cur of [] \<Rightarrow> zero_output | x # xs \<Rightarrow> last (x # xs)) = [] \<Longrightarrow>
   identify cur = (a, rest, a # rest)"
  by (simp add: identify_eq Let_def)

lemma identify_flagged:
  "filter (\<lambda>ou. Connected ou \<and> Primary ou) cur = fl @ [u] \<Longrightarrow> Name u \<noteq> [] \<Longrightarrow>
   identify cur = (u, filter (\<lambda>ou. Connected ou \<and> \<not> Primary ou) cur, filter Connected cur)"
proof -
  assume fl: "filter (\<lambda>ou. Connected ou \<and> Primary ou) cur = fl @ [u]" and name: "Name u \<noteq> []"
  obtain x xs where xs: "fl @ [u] = x # xs" by (cases fl) auto
  then have "last (x # xs) = u" by (metis last_snoc)
  then have "(case filter (\<lambda>ou. Connected ou \<and> Primary ou) cur of [] \<Rightarrow> zero_output | x # xs \<Rightarrow> last (x # xs)) = u"
    by (simp only: fl xs list.case)
  then show ?thesis
    using name by (simp only: identify_eq Let_def) (simp split: list.splits)
qed

lemma identify_no_flagged:
  "filter (\<lambda>ou. Connected ou \<and> Primary ou) cur = [] \<Longrightarrow>
   identify cur = (case filter Connected cur of
                     [] \<Rightarrow> (zero_output, [], [])
                   | a # rest \<Rightarrow> (a, rest, a # rest))"
proof -
  assume none: "filter (\<lambda>ou. Connected ou \<and> Primary ou) cur = []"
  have "filter (\<lambda>ou. Connected ou \<and> \<not> Primary ou) cur = filter Connected cur"
    using none by (auto simp: filter_empty_conv intro: filter_cong)
  then show ?thesis
    using none by (simp add: identify_eq Let_def zero_output_def split: list.splits)
qed

lemma filter_conj_filter: "filter (\<lambda>ou. P ou \<and> Q ou) xs = filter Q (filter P xs)"
  by (induction xs) auto

lemma externals_empty_if_at_most_one:
  assumes "length (filter Connected cur) \<le> 1"
  shows "fst (snd (identify cur)) = []"
proof (cases "filter Connected cur")
  case Nil
  have "filter (\<lambda>ou. Connected ou \<and> \<not> Primary ou) cur = []"
    unfolding filter_conj_filter Nil by simp
  with Nil show ?thesis by (simp add: identify_eq Let_def)
next
  case (Cons a rest)
  with assms have rest: "rest = []" by simp
  show ?thesis
  proof (cases "Primary a")
    case True
    have "filter (\<lambda>ou. Connected ou \<and> \<not> Primary ou) cur = []"
      unfolding filter_conj_filter Cons rest using True by simp
    then show ?thesis
      using Cons rest by (simp add: identify_eq Let_def)
  next
    case False
    have "filter (\<lambda>ou. Connected ou \<and> Primary ou) cur = []"
      unfolding filter_conj_filter Cons rest using False by simp
    then show ?thesis
      using Cons rest by (simp add: identify_no_flagged)
  qed
qed

lemma mirror_action_emitted:
  assumes "MirrorAction p ext r \<in> set (fst (tick env (prev, prevSet) (Inr cur)))"
  shows "p = fst (identify cur) \<and> ext = fst (snd (identify cur)) \<and> ext \<noteq> [] \<and>
         r = bestCommonResolution env (filter Connected cur)"
proof -
  have "MirrorAction p ext r \<notin> set (restore_part prevSet cur)"
    using filter_mirror_restore_part [of prevSet cur]
    by (metis action.disc(1) filter_empty_conv)
  with assms have "MirrorAction p ext r \<in> set (mirror_part env prevSet cur)"
    by (simp add: tick_actions)
  then show ?thesis
    by (auto simp: mirror_part_cases split: if_splits)
qed

lemma identify_primary_connected:
  assumes ne: "fst (snd (identify cur)) \<noteq> []"
  shows "fst (identify cur) \<in> set (filter Connected cur)"
proof -
  define al where "al = filter Connected cur"
  define fl where "fl = filter (\<lambda>ou. Connected ou \<and> Primary ou) cur"
  show ?thesis
  proof (cases "Name (case fl of [] \<Rightarrow> zero_output | x # xs \<Rightarrow> last (x # xs)) = []")
    case True
    have "al \<noteq> []"
    proof
      assume "al = []"
      then have "filter (\<lambda>ou. Connected ou \<and> \<not> Primary ou) cur = []"
        unfolding filter_conj_filter al_def [symmetric] by simp
      then have "fst (snd (identify cur)) = []"
        using \<open>al = []\<close> by (simp add: identify_eq Let_def al_def)
      with ne show False by simp
    qed
    then obtain a rest where al: "al = a # rest" by (cases al) auto
    have "identify cur = (a, rest, a # rest)"
      using al True by (simp add: identify_fallback al_def fl_def)
    then show ?thesis
      using al by (simp add: al_def)
  next
    case False
    then have "fl \<noteq> []" by (auto simp: zero_output_def)
    then obtain fl' u where fl: "fl = fl' @ [u]"
      by (cases fl rule: rev_cases) auto
    have "(case fl of [] \<Rightarrow> zero_output | x # xs \<Rightarrow> last (x # xs)) = u"
      by (cases fl') (simp_all add: fl)
    with False have name: "Name u \<noteq> []" by simp
    have "identify cur = (u, filter (\<lambda>ou. Connected ou \<and> \<not> Primary ou) cur, filter Connected cur)"
      using identify_flagged [of cur fl' u] fl name by (simp add: fl_def)
    moreover have "u \<in> set fl" by (simp add: fl)
    then have "u \<in> set (filter Connected cur)" by (simp add: fl_def)
    ultimately show ?thesis by simp
  qed
qed

lemma identify_externals_others:
  assumes ne: "fst (snd (identify cur)) \<noteq> []"
    and names: "distinct (map Name (filter Connected cur))"
    and flagged: "length (filter (\<lambda>ou. Connected ou \<and> Primary ou) cur) \<le> 1"
  shows "fst (snd (identify cur)) =
           filter (\<lambda>ou. Name ou \<noteq> Name (fst (identify cur))) (filter Connected cur) \<and>
         fst (identify cur) \<notin> set (fst (snd (identify cur)))"
proof -
  define al where "al = filter Connected cur"
  define fl where "fl = filter (\<lambda>ou. Connected ou \<and> Primary ou) cur"
  define p where "p = fst (identify cur)"
  define ext where "ext = fst (snd (identify cur))"
  have ne: "ext \<noteq> []" using assms(1) by (simp add: ext_def)
  note p = p_def and ext = ext_def
  have inj: "inj_on Name (set al)" and dist: "distinct al"
    using names by (simp_all add: al_def distinct_map)
  have others: "p \<in> set al \<and> ext = filter (\<lambda>ou. Name ou \<noteq> Name p) al \<and> p \<notin> set ext"
  proof (cases "Name (case fl of [] \<Rightarrow> zero_output | x # xs \<Rightarrow> last (x # xs)) = []")
    case True
    have "al \<noteq> []"
    proof
      assume "al = []"
      then have "filter (\<lambda>ou. Connected ou \<and> \<not> Primary ou) cur = []"
        unfolding filter_conj_filter al_def [symmetric] by simp
      then have "fst (snd (identify cur)) = []"
        using \<open>al = []\<close> by (simp add: identify_eq Let_def al_def)
      with ext ne show False by simp
    qed
    then obtain a rest where al: "al = a # rest" by (cases al) auto
    have "identify cur = (a, rest, a # rest)"
      using al True by (simp add: identify_fallback al_def fl_def)
    then have pa: "p = a" and er: "ext = rest" by (simp_all add: p ext)
    have "distinct (map Name (a # rest))"
      using names unfolding al_def [symmetric] al .
    then have notin: "Name a \<notin> Name ` set rest"
      by simp
    have "\<forall>ou \<in> set rest. Name ou \<noteq> Name a"
    proof (intro ballI notI)
      fix ou
      assume "ou \<in> set rest" and "Name ou = Name a"
      then have "Name a \<in> Name ` set rest" by (metis imageI)
      with notin show False by contradiction
    qed
    then have "filter (\<lambda>ou. Name ou \<noteq> Name a) rest = rest"
      by (simp add: filter_id_conv)
    moreover have "a \<notin> set rest"
      using dist al by simp
    ultimately show ?thesis by (simp add: pa er al)
  next
    case False
    then have "fl \<noteq> []" by (auto simp: zero_output_def)
    moreover have "length fl \<le> 1" using flagged by (simp add: fl_def)
    ultimately obtain u where fl: "fl = [u]"
      by (cases fl) auto
    have name: "Name u \<noteq> []" using False by (simp add: fl)
    have "identify cur = (u, filter (\<lambda>ou. Connected ou \<and> \<not> Primary ou) cur, filter Connected cur)"
      using identify_flagged [of cur "[]" u] fl name by (simp add: fl_def)
    then have pu: "p = u" and eu: "ext = filter (\<lambda>ou. \<not> Primary ou) al"
      by (simp_all add: p ext al_def)
    have "u \<in> set fl" by (simp add: fl)
    then have u_al: "u \<in> set al" and u_prim: "Primary u"
      by (simp_all add: fl_def al_def)
    have flagged_is_u: "ou = u" if "ou \<in> set al" "Primary ou" for ou
    proof -
      from that have "ou \<in> set fl" by (simp add: fl_def al_def)
      then show ?thesis by (simp add: fl)
    qed
    have "filter (\<lambda>ou. \<not> Primary ou) al = filter (\<lambda>ou. Name ou \<noteq> Name u) al"
    proof (rule filter_cong [OF refl])
      fix ou
      assume ou: "ou \<in> set al"
      show "(\<not> Primary ou) = (Name ou \<noteq> Name u)"
      proof
        assume "\<not> Primary ou"
        with u_prim have "ou \<noteq> u" by auto
        with inj ou u_al show "Name ou \<noteq> Name u" by (auto dest: inj_onD)
      next
        assume "Name ou \<noteq> Name u"
        then have "ou \<noteq> u" by auto
        with flagged_is_u [OF ou] show "\<not> Primary ou" by auto
      qed
    qed
    moreover have "u \<notin> set (filter (\<lambda>ou. \<not> Primary ou) al)"
      using u_prim by simp
    ultimately show ?thesis
      using u_al by (simp add: pu eu)
  qed
  then show ?thesis
    unfolding al_def p_def ext_def by (rule conjunct2)
qed

section \<open>Claims\<close>

text \<open>
  Claim C1 (as stated by the specification, refuted). With a non-empty disappeared-set
  and a current snapshot whose only connected output does not have the primary flag, the
  specification restores that output; the code issues no command: its loop only accepts
  outputs with the primary flag.
\<close>

theorem restore_has_no_fallback_counterexample:
  "removed [''eDP-1'', ''HDMI-1'']
     (connectedSet
        [\<lparr>Name = ''eDP-1'', Connected = True, Primary = False, Resolutions = [\<lparr>W = 1920, H = 1080\<rparr>]\<rparr>,
         \<lparr>Name = ''HDMI-1'', Connected = False, Primary = False, Resolutions = []\<rparr>]) = [''HDMI-1''] \<and>
   filter is_RestoreAction (fst (tick example_env ([], [''eDP-1'', ''HDMI-1''])
     (Inr [\<lparr>Name = ''eDP-1'', Connected = True, Primary = False, Resolutions = [\<lparr>W = 1920, H = 1080\<rparr>]\<rparr>,
           \<lparr>Name = ''HDMI-1'', Connected = False, Primary = False, Resolutions = []\<rparr>]))) = [] \<and>
   restore_claimed
     [\<lparr>Name = ''eDP-1'', Connected = True, Primary = False, Resolutions = [\<lparr>W = 1920, H = 1080\<rparr>]\<rparr>,
      \<lparr>Name = ''HDMI-1'', Connected = False, Primary = False, Resolutions = []\<rparr>] =
     [RestoreAction
        \<lparr>Name = ''eDP-1'', Connected = True, Primary = False, Resolutions = [\<lparr>W = 1920, H = 1080\<rparr>]\<rparr>
        \<lparr>W = 1920, H = 1080\<rparr>]"
  by (simp add: tick_def mirror_part_def restore_part_def newOutputs_def removed_def
      connectedSet_def map_put_def map_get_def restore_claimed_def)

text \<open>
  Where two connected outputs have the primary flag and the first of them has no known
  resolution, the loop passes over it and restores the second, where the specification
  would restore nothing.
\<close>

lemma restore_passes_over_flagged_output_without_modes:
  "restore_loop
     [\<lparr>Name = ''DP-1'', Connected = True, Primary = True, Resolutions = []\<rparr>,
      \<lparr>Name = ''DP-2'', Connected = True, Primary = True, Resolutions = [\<lparr>W = 1600, H = 900\<rparr>]\<rparr>] =
     [RestoreAction
        \<lparr>Name = ''DP-2'', Connected = True, Primary = True, Resolutions = [\<lparr>W = 1600, H = 900\<rparr>]\<rparr>
        \<lparr>W = 1600, H = 900\<rparr>] \<and>
   restore_claimed
     [\<lparr>Name = ''DP-1'', Connected = True, Primary = True, Resolutions = []\<rparr>,
      \<lparr>Name = ''DP-2'', Connected = True, Primary = True, Resolutions = [\<lparr>W = 1600, H = 900\<rparr>]\<rparr>] = []"
  by (simp add: restore_claimed_def)

text \<open>
  Claim C1 (amended). With a non-empty disappeared-set and a current snapshot in which
  some connected output has the primary flag, the pass restores the first output, in
  snapshot order, that is connected, has the primary flag and has a known resolution; the
  RestoreAction is issued exactly when there is such an output, and its resolution is the
  first entry of that output's resolutions list.
\<close>

theorem restore_first_flagged_output_with_modes:
  assumes "removed prevSet (connectedSet cur) \<noteq> []"
    and "list_ex (\<lambda>ou. Connected ou \<and> Primary ou) cur"
  shows "filter is_RestoreAction (fst (tick env (prev, prevSet) (Inr cur))) =
           (case find (\<lambda>ou. Connected ou \<and> Primary ou \<and> Resolutions ou \<noteq> []) cur of
              Some ou \<Rightarrow> [RestoreAction ou (hd (Resolutions ou))]
            | None \<Rightarrow> [])"
proof -
  have "filter is_RestoreAction (fst (tick env (prev, prevSet) (Inr cur))) = restore_loop cur"
    using assms(1)
    by (simp add: tick_actions filter_restore_mirror_part restore_part_cases
        filter_restore_restore_loop)
  then show ?thesis
    by (simp only: restore_loop_find)
qed

theorem restore_first_flagged_output_with_modes_witness:
  "removed [''eDP-1'', ''HDMI-1'']
     (connectedSet
        [\<lparr>Name = ''eDP-1'', Connected = True, Primary = True,
           Resolutions = [\<lparr>W = 1600, H = 900\<rparr>, \<lparr>W = 1920, H = 1080\<rparr>]\<rparr>,
         \<lparr>Name = ''HDMI-1'', Connected = False, Primary = False, Resolutions = []\<rparr>]) = [''HDMI-1''] \<and>
   list_ex (\<lambda>ou. Connected ou \<and> Primary ou)
     [\<lparr>Name = ''eDP-1'', Connected = True, Primary = True,
        Resolutions = [\<lparr>W = 1600, H = 900\<rparr>, \<lparr>W = 1920, H = 1080\<rparr>]\<rparr>,
      \<lparr>Name = ''HDMI-1'', Connected = False, Primary = False, Resolutions = []\<rparr>] \<and>
   filter is_RestoreAction (fst (tick example_env ([], [''eDP-1'', ''HDMI-1''])
     (Inr [\<lparr>Name = ''eDP-1'', Connected = True, Primary = True,
             Resolutions = [\<lparr>W = 1600, H = 900\<rparr>, \<lparr>W = 1920, H = 1080\<rparr>]\<rparr>,
           \<lparr>Name = ''HDMI-1'', Connected = False, Primary = False, Resolutions = []\<rparr>]))) =
     [RestoreAction
        \<lparr>Name = ''eDP-1'', Connected = True, Primary = True,
          Resolutions = [\<lparr>W = 1600, H = 900\<rparr>, \<lparr>W = 1920, H = 1080\<rparr>]\<rparr>
        \<lparr>W = 1600, H = 900\<rparr>]"
proof -
  let ?cur = "[\<lparr>Name = ''eDP-1'', Connected = True, Primary = True,
             Resolutions = [\<lparr>W = 1600, H = 900\<rparr>, \<lparr>W = 1920, H = 1080\<rparr>]\<rparr>,
           \<lparr>Name = ''HDMI-1'', Connected = False, Primary = False, Resolutions = []\<rparr>]"
  have gone: "removed [''eDP-1'', ''HDMI-1''] (connectedSet ?cur) = [''HDMI-1'']"
    by (simp add: removed_def connectedSet_def map_put_def map_get_def)
  then have ne: "removed [''eDP-1'', ''HDMI-1''] (connectedSet ?cur) \<noteq> []"
    by simp
  have flagged: "list_ex (\<lambda>ou. Connected ou \<and> Primary ou) ?cur"
    by simp
  show ?thesis
    using restore_first_flagged_output_with_modes [OF ne flagged, of example_env "[]"] gone flagged
    by simp
qed

text \<open>
  Claim C2 (the code departs from its own comment). The appeared output is not the last
  connected output of the snapshot: with no shared resolution, the MirrorAction gets the
  first resolution of the last connected output, not that of the output that appeared.
\<close>

theorem fallback_is_last_connected_not_appeared:
  "newOutputs [''eDP-1'', ''HDMI-1'']
     (connectedSet
        [\<lparr>Name = ''eDP-1'', Connected = True, Primary = True, Resolutions = [\<lparr>W = 1366, H = 768\<rparr>]\<rparr>,
         \<lparr>Name = ''DP-1'', Connected = True, Primary = False, Resolutions = [\<lparr>W = 2560, H = 1440\<rparr>]\<rparr>,
         \<lparr>Name = ''HDMI-1'', Connected = True, Primary = False, Resolutions = [\<lparr>W = 1680, H = 1050\<rparr>]\<rparr>])
     = [''DP-1''] \<and>
   common_resolutions
        [\<lparr>Name = ''eDP-1'', Connected = True, Primary = True, Resolutions = [\<lparr>W = 1366, H = 768\<rparr>]\<rparr>,
         \<lparr>Name = ''DP-1'', Connected = True, Primary = False, Resolutions = [\<lparr>W = 2560, H = 1440\<rparr>]\<rparr>,
         \<lparr>Name = ''HDMI-1'', Connected = True, Primary = False, Resolutions = [\<lparr>W = 1680, H = 1050\<rparr>]\<rparr>]
     = {} \<and>
   fst (tick example_env ([], [''eDP-1'', ''HDMI-1''])
     (Inr [\<lparr>Name = ''eDP-1'', Connected = True, Primary = True, Resolutions = [\<lparr>W = 1366, H = 768\<rparr>]\<rparr>,
           \<lparr>Name = ''DP-1'', Connected = True, Primary = False, Resolutions = [\<lparr>W = 2560, H = 1440\<rparr>]\<rparr>,
           \<lparr>Name = ''HDMI-1'', Connected = True, Primary = False, Resolutions = [\<lparr>W = 1680, H = 1050\<rparr>]\<rparr>])) =
     [MirrorAction
        \<lparr>Name = ''eDP-1'', Connected = True, Primary = True, Resolutions = [\<lparr>W = 1366, H = 768\<rparr>]\<rparr>
        [\<lparr>Name = ''DP-1'', Connected = True, Primary = False, Resolutions = [\<lparr>W = 2560, H = 1440\<rparr>]\<rparr>,
         \<lparr>Name = ''HDMI-1'', Connected = True, Primary = False, Resolutions = [\<lparr>W = 1680, H = 1050\<rparr>]\<rparr>]
        \<lparr>W = 1680, H = 1050\<rparr>]"
proof -
  let ?e = "\<lparr>Name = ''eDP-1'', Connected = True, Primary = True, Resolutions = [\<lparr>W = 1366, H = 768\<rparr>]\<rparr>"
  let ?d = "\<lparr>Name = ''DP-1'', Connected = True, Primary = False, Resolutions = [\<lparr>W = 2560, H = 1440\<rparr>]\<rparr>"
  let ?h = "\<lparr>Name = ''HDMI-1'', Connected = True, Primary = False, Resolutions = [\<lparr>W = 1680, H = 1050\<rparr>]\<rparr>"
  have new: "newOutputs [''eDP-1'', ''HDMI-1''] (connectedSet [?e, ?d, ?h]) = [''DP-1'']"
    by (simp add: newOutputs_def connectedSet_def map_put_def map_get_def)
  have gone: "removed [''eDP-1'', ''HDMI-1''] (connectedSet [?e, ?d, ?h]) = []"
    by (simp add: removed_def connectedSet_def map_put_def map_get_def)
  have inter: "common_resolutions [?e, ?d, ?h] = {}"
    by (simp add: common_resolutions_def)
  have ident: "identify [?e, ?d, ?h] = (?e, [?d, ?h], [?e, ?d, ?h])"
    by (simp add: identify_def identify_step_def zero_output_def)
  have best: "bestCommonResolution example_env [?e, ?d, ?h] = \<lparr>W = 1680, H = 1050\<rparr>"
    by (simp add: bestCommonResolution_def example_env_def intersect_with_def
        map_put_def map_get_def map_delete_def)
  have "fst (tick example_env ([], [''eDP-1'', ''HDMI-1'']) (Inr [?e, ?d, ?h])) =
      [MirrorAction ?e [?d, ?h] \<lparr>W = 1680, H = 1050\<rparr>]"
    by (simp add: tick_def mirror_part_def restore_part_def new gone ident best)
  with new inter show ?thesis
    by simp
qed

text \<open>
  Claim C3 (as stated by the specification, refuted). A header line of a connected output
  with no mode line after it gives a connected output with an empty resolutions list: the
  parser checks nothing.
\<close>

theorem connected_output_without_modes_counterexample:
  "parseXrandr (Inr [''Screen 0: minimum 320 x 200, current 1920 x 1080'',
                     ''HDMI-1 connected (normal left inverted right x axis y axis)'']) =
     Inr [\<lparr>Name = ''HDMI-1'', Connected = True, Primary = False, Resolutions = []\<rparr>] \<and>
   \<not> resolutions_invariant
       (parseLines [''Screen 0: minimum 320 x 200, current 1920 x 1080'',
                    ''HDMI-1 connected (normal left inverted right x axis y axis)''])"
  by (simp add: parseXrandr_def parseLines_def scan_line_def outputRe_def is_space_def
      has_prefix_def resolutions_invariant_def)

text \<open>
  Claim C3 (amended). A snapshot produced by the parser has a non-empty resolutions list
  for every connected output exactly when, in the input, every header line of a connected
  output is followed by at least one mode line before the next header line.
\<close>

theorem parsed_invariant_iff_modes_follow_connected_headers:
  "resolutions_invariant (parseLines ls) \<longleftrightarrow> connected_headers_have_modes ls"
proof -
  have "resolutions_invariant (parse_ref ls) \<longleftrightarrow> connected_headers_have_modes ls"
  proof (induction ls)
    case Nil
    show ?case by (simp add: resolutions_invariant_def)
  next
    case (Cons l ls)
    show ?case
    proof (cases "outputRe l")
      case None
      with Cons.IH show ?thesis by simp
    next
      case (Some m)
      obtain m1 m2 m3 where m: "m = (m1, m2, m3)" by (cases m) auto
      have "resolutions_invariant (ou # parse_ref ls) \<longleftrightarrow>
              \<not> (Connected ou \<and> Resolutions ou = []) \<and> connected_headers_have_modes ls" for ou
        using Cons.IH by (simp add: resolutions_invariant_def)
      then show ?thesis
        using Some by (simp add: m modes_of_empty)
    qed
  qed
  then show ?thesis
    by (simp only: parseLines_parse_ref)
qed

theorem parsed_invariant_iff_modes_follow_connected_headers_witness:
  "connected_headers_have_modes
     [''eDP-1 connected primary 1920x1080+0+0 (normal left inverted)'',
      ''   1920x1080     60.00*+'',
      ''HDMI-1 disconnected (normal left inverted)''] \<and>
   resolutions_invariant (parseLines
     [''eDP-1 connected primary 1920x1080+0+0 (normal left inverted)'',
      ''   1920x1080     60.00*+'',
      ''HDMI-1 disconnected (normal left inverted)''])"
proof -
  let ?ls = "[''eDP-1 connected primary 1920x1080+0+0 (normal left inverted)'',
      ''   1920x1080     60.00*+'',
      ''HDMI-1 disconnected (normal left inverted)'']"
  have h1: "outputRe ''eDP-1 connected primary 1920x1080+0+0 (normal left inverted)'' =
      Some (''eDP-1'', ''connected'', ''primary'')"
    by (simp add: outputRe_def is_space_def has_prefix_def)
  have m1: "outputRe ''   1920x1080     60.00*+'' = None"
    by (simp add: outputRe_def is_space_def has_prefix_def)
  have m2: "modeRe ''   1920x1080     60.00*+'' = Some (''1920'', ''1080'')"
    by (simp add: modeRe_def is_space_def is_digit_def has_prefix_def)
  have h2: "outputRe ''HDMI-1 disconnected (normal left inverted)'' =
      Some (''HDMI-1'', ''disconnected'', [])"
    by (simp add: outputRe_def is_space_def has_prefix_def)
  have ok: "connected_headers_have_modes ?ls"
    by (simp add: h1 m1 m2 h2)
  with parsed_invariant_iff_modes_follow_connected_headers [of ?ls] show ?thesis
    by blast
qed

text \<open>
  Claim C4 (as stated by the specification, refuted). Two outputs share 1x1 and
  3037000500x3037000500, both of which the parser can deliver. The product of the larger
  one exceeds \<open>2 ^ 63\<close> and \<^verbatim>\<open>pixels()\<close> wraps to a negative number, so the code
  returns 1x1, whatever the iteration order and the sort: not the shared resolution of
  greatest pixel area.
\<close>

theorem overflowing_area_counterexample:
  "common_resolutions
     [\<lparr>Name = ''eDP-1'', Connected = True, Primary = True,
        Resolutions = [\<lparr>W = 3037000500, H = 3037000500\<rparr>, \<lparr>W = 1, H = 1\<rparr>]\<rparr>,
      \<lparr>Name = ''HDMI-1'', Connected = True, Primary = False,
        Resolutions = [\<lparr>W = 1, H = 1\<rparr>, \<lparr>W = 3037000500, H = 3037000500\<rparr>]\<rparr>]
     = {\<lparr>W = 3037000500, H = 3037000500\<rparr>, \<lparr>W = 1, H = 1\<rparr>} \<and>
   area \<lparr>W = 1, H = 1\<rparr> = 1 \<and>
   area \<lparr>W = 3037000500, H = 3037000500\<rparr> = 9223372037000250000 \<and>
   sint (pixels \<lparr>W = 3037000500, H = 3037000500\<rparr>) = - 9223372036709301616 \<and>
   bestCommonResolution example_env
     [\<lparr>Name = ''eDP-1'', Connected = True, Primary = True,
        Resolutions = [\<lparr>W = 3037000500, H = 3037000500\<rparr>, \<lparr>W = 1, H = 1\<rparr>]\<rparr>,
      \<lparr>Name = ''HDMI-1'', Connected = True, Primary = False,
        Resolutions = [\<lparr>W = 1, H = 1\<rparr>, \<lparr>W = 3037000500, H = 3037000500\<rparr>]\<rparr>]
     = \<lparr>W = 1, H = 1\<rparr>"
proof -
  let ?outs = "[\<lparr>Name = ''eDP-1'', Connected = True, Primary = True,
        Resolutions = [\<lparr>W = 3037000500, H = 3037000500\<rparr>, \<lparr>W = 1, H = 1\<rparr>]\<rparr>,
      \<lparr>Name = ''HDMI-1'', Connected = True, Primary = False,
        Resolutions = [\<lparr>W = 1, H = 1\<rparr>, \<lparr>W = 3037000500, H = 3037000500\<rparr>]\<rparr>]"
  have inter: "common_resolutions ?outs = {\<lparr>W = 3037000500, H = 3037000500\<rparr>, \<lparr>W = 1, H = 1\<rparr>}"
    by (auto simp: common_resolutions_def)
  have small: "area \<lparr>W = 1, H = 1\<rparr> = 1"
    by (simp add: area_def)
  have big: "area \<lparr>W = 3037000500, H = 3037000500\<rparr> = 9223372037000250000"
    by (simp add: area_def)
  have wrapped: "sint (pixels \<lparr>W = 3037000500, H = 3037000500\<rparr>) = - 9223372036709301616"
    by (simp add: pixels_def)
  have one: "sint (pixels \<lparr>W = 1, H = 1\<rparr>) = 1"
    by (simp add: pixels_def)
  have "bestCommonResolution example_env ?outs \<in> common_resolutions ?outs \<and>
      (\<forall>r \<in> common_resolutions ?outs.
         sint (pixels r) \<le> sint (pixels (bestCommonResolution example_env ?outs)))"
    by (rule bestCommonResolution_most_pixels [OF env_ok_example]) (simp_all add: inter)
  then have mem: "bestCommonResolution example_env ?outs
        \<in> {\<lparr>W = 3037000500, H = 3037000500\<rparr>, \<lparr>W = 1, H = 1\<rparr>}"
    and most: "sint (pixels \<lparr>W = 1, H = 1\<rparr>) \<le> sint (pixels (bestCommonResolution example_env ?outs))"
    by (simp_all only: inter) simp_all
  have best: "bestCommonResolution example_env ?outs = \<lparr>W = 1, H = 1\<rparr>"
  proof (rule ccontr)
    assume "bestCommonResolution example_env ?outs \<noteq> \<lparr>W = 1, H = 1\<rparr>"
    with mem have "bestCommonResolution example_env ?outs = \<lparr>W = 3037000500, H = 3037000500\<rparr>"
      by blast
    with most show False
      by (simp add: wrapped one)
  qed
  from inter small big wrapped best show ?thesis
    by (intro conjI)
qed

text \<open>The same for every runtime that meets the contract.\<close>

lemma overflowing_area_for_every_runtime:
  assumes "env_ok env"
  shows "bestCommonResolution env
     [\<lparr>Name = ''eDP-1'', Connected = True, Primary = True,
        Resolutions = [\<lparr>W = 3037000500, H = 3037000500\<rparr>, \<lparr>W = 1, H = 1\<rparr>]\<rparr>,
      \<lparr>Name = ''HDMI-1'', Connected = True, Primary = False,
        Resolutions = [\<lparr>W = 1, H = 1\<rparr>, \<lparr>W = 3037000500, H = 3037000500\<rparr>]\<rparr>]
     = \<lparr>W = 1, H = 1\<rparr>"
proof -
  let ?outs = "[\<lparr>Name = ''eDP-1'', Connected = True, Primary = True,
        Resolutions = [\<lparr>W = 3037000500, H = 3037000500\<rparr>, \<lparr>W = 1, H = 1\<rparr>]\<rparr>,
      \<lparr>Name = ''HDMI-1'', Connected = True, Primary = False,
        Resolutions = [\<lparr>W = 1, H = 1\<rparr>, \<lparr>W = 3037000500, H = 3037000500\<rparr>]\<rparr>]"
  have inter: "common_resolutions ?outs = {\<lparr>W = 3037000500, H = 3037000500\<rparr>, \<lparr>W = 1, H = 1\<rparr>}"
    by (auto simp: common_resolutions_def)
  have wrapped: "sint (pixels \<lparr>W = 3037000500, H = 3037000500\<rparr>) = - 9223372036709301616"
    by (simp add: pixels_def)
  have one: "sint (pixels \<lparr>W = 1, H = 1\<rparr>) = 1"
    by (simp add: pixels_def)
  have "bestCommonResolution env ?outs \<in> common_resolutions ?outs \<and>
      (\<forall>r \<in> common_resolutions ?outs.
         sint (pixels r) \<le> sint (pixels (bestCommonResolution env ?outs)))"
    by (rule bestCommonResolution_most_pixels [OF assms]) (simp_all add: inter)
  then have mem: "bestCommonResolution env ?outs
        \<in> {\<lparr>W = 3037000500, H = 3037000500\<rparr>, \<lparr>W = 1, H = 1\<rparr>}"
    and most: "sint (pixels \<lparr>W = 1, H = 1\<rparr>) \<le> sint (pixels (bestCommonResolution env ?outs))"
    by (simp_all only: inter) simp_all
  show ?thesis
  proof (rule ccontr)
    assume "bestCommonResolution env ?outs \<noteq> \<lparr>W = 1, H = 1\<rparr>"
    with mem have "bestCommonResolution env ?outs = \<lparr>W = 3037000500, H = 3037000500\<rparr>"
      by blast
    with most show False
      by (simp add: wrapped one)
  qed
qed

text \<open>
  Claim C4 (amended). On the empty candidate list \<^verbatim>\<open>bestCommonResolution\<close> returns
  1920x1080. On a non-empty list whose resolution sets have a non-empty intersection it
  returns an element of that intersection, and when the pixel area (width times height, as
  integers) of every element of the intersection fits Go's \<^verbatim>\<open>int\<close>, no element of the
  intersection has a greater pixel area than the one returned. This holds for every
  iteration order of the map and every sort that meets the contract of \<^verbatim>\<open>sort.Slice\<close>.
\<close>

theorem bestCommonResolution_reference:
  assumes "env_ok env"
  shows "bestCommonResolution env [] = \<lparr>W = 1920, H = 1080\<rparr> \<and>
         (outputs \<noteq> [] \<and> common_resolutions outputs \<noteq> {} \<longrightarrow>
            bestCommonResolution env outputs \<in> common_resolutions outputs \<and>
            ((\<forall>r \<in> common_resolutions outputs. fits_int (area r)) \<longrightarrow>
             (\<forall>r \<in> common_resolutions outputs.
                area r \<le> area (bestCommonResolution env outputs))))"
proof (intro conjI impI)
  show "bestCommonResolution env [] = \<lparr>W = 1920, H = 1080\<rparr>"
    by (simp add: bestCommonResolution_def fallback_def)
next
  assume "outputs \<noteq> [] \<and> common_resolutions outputs \<noteq> {}"
  then have most: "bestCommonResolution env outputs \<in> common_resolutions outputs \<and>
         (\<forall>r \<in> common_resolutions outputs.
            sint (pixels r) \<le> sint (pixels (bestCommonResolution env outputs)))"
    using assms by (intro bestCommonResolution_most_pixels) simp_all
  then show in_common: "bestCommonResolution env outputs \<in> common_resolutions outputs"
    by simp
  assume fits: "\<forall>r \<in> common_resolutions outputs. fits_int (area r)"
  show "\<forall>r \<in> common_resolutions outputs. area r \<le> area (bestCommonResolution env outputs)"
  proof
    fix r
    assume r: "r \<in> common_resolutions outputs"
    have "area r = sint (pixels r)"
      using fits r by (simp add: pixels_exact)
    also have "\<dots> \<le> sint (pixels (bestCommonResolution env outputs))"
      using most r by simp
    also have "\<dots> = area (bestCommonResolution env outputs)"
      using fits in_common by (simp add: pixels_exact)
    finally show "area r \<le> area (bestCommonResolution env outputs)" .
  qed
qed

theorem bestCommonResolution_reference_witness:
  "env_ok example_env \<and>
   common_resolutions
     [\<lparr>Name = ''eDP-1'', Connected = True, Primary = True,
        Resolutions = [\<lparr>W = 1280, H = 720\<rparr>, \<lparr>W = 1920, H = 1080\<rparr>, \<lparr>W = 800, H = 600\<rparr>]\<rparr>,
      \<lparr>Name = ''HDMI-1'', Connected = True, Primary = False,
        Resolutions = [\<lparr>W = 800, H = 600\<rparr>, \<lparr>W = 1920, H = 1080\<rparr>, \<lparr>W = 2560, H = 1440\<rparr>]\<rparr>]
     = {\<lparr>W = 800, H = 600\<rparr>, \<lparr>W = 1920, H = 1080\<rparr>} \<and>
   fits_int (area \<lparr>W = 800, H = 600\<rparr>) \<and>
   fits_int (area \<lparr>W = 1920, H = 1080\<rparr>) \<and>
   bestCommonResolution example_env
     [\<lparr>Name = ''eDP-1'', Connected = True, Primary = True,
        Resolutions = [\<lparr>W = 1280, H = 720\<rparr>, \<lparr>W = 1920, H = 1080\<rparr>, \<lparr>W = 800, H = 600\<rparr>]\<rparr>,
      \<lparr>Name = ''HDMI-1'', Connected = True, Primary = False,
        Resolutions = [\<lparr>W = 800, H = 600\<rparr>, \<lparr>W = 1920, H = 1080\<rparr>, \<lparr>W = 2560, H = 1440\<rparr>]\<rparr>]
     = \<lparr>W = 1920, H = 1080\<rparr> \<and>
   area \<lparr>W = 800, H = 600\<rparr> \<le> area \<lparr>W = 1920, H = 1080\<rparr>"
proof -
  let ?outs = "[\<lparr>Name = ''eDP-1'', Connected = True, Primary = True,
        Resolutions = [\<lparr>W = 1280, H = 720\<rparr>, \<lparr>W = 1920, H = 1080\<rparr>, \<lparr>W = 800, H = 600\<rparr>]\<rparr>,
      \<lparr>Name = ''HDMI-1'', Connected = True, Primary = False,
        Resolutions = [\<lparr>W = 800, H = 600\<rparr>, \<lparr>W = 1920, H = 1080\<rparr>, \<lparr>W = 2560, H = 1440\<rparr>]\<rparr>]"
  have inter: "common_resolutions ?outs = {\<lparr>W = 800, H = 600\<rparr>, \<lparr>W = 1920, H = 1080\<rparr>}"
    by (auto simp: common_resolutions_def)
  have f1: "fits_int (area \<lparr>W = 800, H = 600\<rparr>)"
    by (simp add: fits_int_def area_def)
  have f2: "fits_int (area \<lparr>W = 1920, H = 1080\<rparr>)"
    by (simp add: fits_int_def area_def)
  have best: "bestCommonResolution example_env ?outs = \<lparr>W = 1920, H = 1080\<rparr>"
    by (simp add: bestCommonResolution_def example_env_def insertion_sort_def intersect_with_def
        map_put_def map_get_def map_delete_def pixels_less_def pixels_def)
  have "\<forall>r \<in> common_resolutions ?outs. area r \<le> area (bestCommonResolution example_env ?outs)"
    using bestCommonResolution_reference [OF env_ok_example, of ?outs] f1 f2
    by (simp add: inter)
  then have "area \<lparr>W = 800, H = 600\<rparr> \<le> area \<lparr>W = 1920, H = 1080\<rparr>"
    by (simp add: inter best)
  with inter f1 f2 best show ?thesis
    by (simp only: env_ok_example simp_thms)
qed

text \<open>
  Claim C5. A tick whose read fails issues no command and leaves the retained snapshot
  and its connected-set as they were; the loop does not return, it goes on with the events
  that follow exactly as it would have without the failed tick.
\<close>

theorem failed_read_retains_state:
  "tick env (prev, prevSet) (Inl err) = ([], (prev, prevSet)) \<and>
   run_loop env (prev, prevSet) [Ticker (Inl err)] = ([], Waiting (prev, prevSet)) \<and>
   run_loop env (prev, prevSet) (Ticker (Inl err) # evs) = run_loop env (prev, prevSet) evs"
  by (simp add: tick_def split: prod.splits)

text \<open>
  Claim C6 (as stated by the specification, refuted). One output appears while another
  disappears; the output that appeared is the only connected one, so there are no
  externals and the pass issues the RestoreAction alone, without a MirrorAction.
\<close>

theorem swap_without_externals_counterexample:
  "newOutputs [''HDMI-1'']
     (connectedSet
        [\<lparr>Name = ''eDP-1'', Connected = True, Primary = True, Resolutions = [\<lparr>W = 1920, H = 1080\<rparr>]\<rparr>,
         \<lparr>Name = ''HDMI-1'', Connected = False, Primary = False, Resolutions = []\<rparr>]) = [''eDP-1''] \<and>
   removed [''HDMI-1'']
     (connectedSet
        [\<lparr>Name = ''eDP-1'', Connected = True, Primary = True, Resolutions = [\<lparr>W = 1920, H = 1080\<rparr>]\<rparr>,
         \<lparr>Name = ''HDMI-1'', Connected = False, Primary = False, Resolutions = []\<rparr>]) = [''HDMI-1''] \<and>
   fst (tick example_env ([], [''HDMI-1''])
     (Inr [\<lparr>Name = ''eDP-1'', Connected = True, Primary = True, Resolutions = [\<lparr>W = 1920, H = 1080\<rparr>]\<rparr>,
           \<lparr>Name = ''HDMI-1'', Connected = False, Primary = False, Resolutions = []\<rparr>])) =
     [RestoreAction
        \<lparr>Name = ''eDP-1'', Connected = True, Primary = True, Resolutions = [\<lparr>W = 1920, H = 1080\<rparr>]\<rparr>
        \<lparr>W = 1920, H = 1080\<rparr>]"
  by (simp add: tick_def mirror_part_def restore_part_def newOutputs_def removed_def
      connectedSet_def map_put_def map_get_def identify_def identify_step_def zero_output_def)

text \<open>
  Claim C6 (amended). When at least one output appeared and at least one disappeared, and
  the current snapshot has externals and a connected output with the primary flag and a
  known resolution, one pass issues exactly a MirrorAction followed by a RestoreAction:
  the mirror is decided and run first.
\<close>

theorem mirror_then_restore:
  assumes "newOutputs prevSet (connectedSet cur) \<noteq> []"
    and "removed prevSet (connectedSet cur) \<noteq> []"
    and "identify cur = (primary, externals, al)"
    and "externals \<noteq> []"
    and "find (\<lambda>ou. Connected ou \<and> Primary ou \<and> Resolutions ou \<noteq> []) cur = Some ou"
  shows "fst (tick env (prev, prevSet) (Inr cur)) =
           [MirrorAction primary externals (bestCommonResolution env al),
            RestoreAction ou (hd (Resolutions ou))]"
proof -
  have "mirror_part env prevSet cur = [MirrorAction primary externals (bestCommonResolution env al)]"
    using assms(1,3,4) by (simp add: mirror_part_def)
  moreover have "restore_part prevSet cur = [RestoreAction ou (hd (Resolutions ou))]"
    using assms(2,5) by (simp add: restore_part_cases restore_loop_find)
  ultimately show ?thesis
    by (simp add: tick_actions)
qed

theorem mirror_then_restore_witness:
  "newOutputs [''eDP-1'', ''DP-1'']
     (connectedSet
        [\<lparr>Name = ''eDP-1'', Connected = True, Primary = True,
           Resolutions = [\<lparr>W = 1920, H = 1080\<rparr>, \<lparr>W = 1280, H = 720\<rparr>]\<rparr>,
         \<lparr>Name = ''DP-1'', Connected = False, Primary = False, Resolutions = []\<rparr>,
         \<lparr>Name = ''HDMI-1'', Connected = True, Primary = False,
           Resolutions = [\<lparr>W = 1280, H = 720\<rparr>]\<rparr>]) = [''HDMI-1''] \<and>
   removed [''eDP-1'', ''DP-1'']
     (connectedSet
        [\<lparr>Name = ''eDP-1'', Connected = True, Primary = True,
           Resolutions = [\<lparr>W = 1920, H = 1080\<rparr>, \<lparr>W = 1280, H = 720\<rparr>]\<rparr>,
         \<lparr>Name = ''DP-1'', Connected = False, Primary = False, Resolutions = []\<rparr>,
         \<lparr>Name = ''HDMI-1'', Connected = True, Primary = False,
           Resolutions = [\<lparr>W = 1280, H = 720\<rparr>]\<rparr>]) = [''DP-1''] \<and>
   fst (tick example_env ([], [''eDP-1'', ''DP-1''])
     (Inr [\<lparr>Name = ''eDP-1'', Connected = True, Primary = True,
             Resolutions = [\<lparr>W = 1920, H = 1080\<rparr>, \<lparr>W = 1280, H = 720\<rparr>]\<rparr>,
           \<lparr>Name = ''DP-1'', Connected = False, Primary = False, Resolutions = []\<rparr>,
           \<lparr>Name = ''HDMI-1'', Connected = True, Primary = False,
             Resolutions = [\<lparr>W = 1280, H = 720\<rparr>]\<rparr>])) =
     [MirrorAction
        \<lparr>Name = ''eDP-1'', Connected = True, Primary = True,
          Resolutions = [\<lparr>W = 1920, H = 1080\<rparr>, \<lparr>W = 1280, H = 720\<rparr>]\<rparr>
        [\<lparr>Name = ''HDMI-1'', Connected = True, Primary = False, Resolutions = [\<lparr>W = 1280, H = 720\<rparr>]\<rparr>]
        \<lparr>W = 1280, H = 720\<rparr>,
      RestoreAction
        \<lparr>Name = ''eDP-1'', Connected = True, Primary = True,
          Resolutions = [\<lparr>W = 1920, H = 1080\<rparr>, \<lparr>W = 1280, H = 720\<rparr>]\<rparr>
        \<lparr>W = 1920, H = 1080\<rparr>]"
proof -
  let ?e = "\<lparr>Name = ''eDP-1'', Connected = True, Primary = True,
             Resolutions = [\<lparr>W = 1920, H = 1080\<rparr>, \<lparr>W = 1280, H = 720\<rparr>]\<rparr>"
  let ?d = "\<lparr>Name = ''DP-1'', Connected = False, Primary = False, Resolutions = []\<rparr>"
  let ?h = "\<lparr>Name = ''HDMI-1'', Connected = True, Primary = False, Resolutions = [\<lparr>W = 1280, H = 720\<rparr>]\<rparr>"
  have new: "newOutputs [''eDP-1'', ''DP-1''] (connectedSet [?e, ?d, ?h]) = [''HDMI-1'']"
    by (simp add: newOutputs_def connectedSet_def map_put_def map_get_def)
  have gone: "removed [''eDP-1'', ''DP-1''] (connectedSet [?e, ?d, ?h]) = [''DP-1'']"
    by (simp add: removed_def connectedSet_def map_put_def map_get_def)
  have ident: "identify [?e, ?d, ?h] = (?e, [?h], [?e, ?h])"
    by (simp add: identify_def identify_step_def zero_output_def)
  have found: "find (\<lambda>ou. Connected ou \<and> Primary ou \<and> Resolutions ou \<noteq> []) [?e, ?d, ?h] = Some ?e"
    by simp
  have best: "bestCommonResolution example_env [?e, ?h] = \<lparr>W = 1280, H = 720\<rparr>"
    by (simp add: bestCommonResolution_def example_env_def insertion_sort_def intersect_with_def
        map_put_def map_get_def map_delete_def)
  have "fst (tick example_env ([], [''eDP-1'', ''DP-1'']) (Inr [?e, ?d, ?h])) =
      [MirrorAction ?e [?h] (bestCommonResolution example_env [?e, ?h]),
       RestoreAction ?e (hd (Resolutions ?e))]"
    using new gone by (intro mirror_then_restore [OF _ _ ident _ found]) simp_all
  then show ?thesis
    using new gone by (simp add: best)
qed

text \<open>
  Claim C7. Reconciling a snapshot against itself finds no appeared and no disappeared
  output and issues no command.
\<close>

theorem reconcile_with_itself:
  "newOutputs (connectedSet s) (connectedSet s) = [] \<and>
   removed (connectedSet s) (connectedSet s) = [] \<and>
   tick env (s, connectedSet s) (Inr s) = ([], (s, connectedSet s))"
  by (simp add: tick_def mirror_part_def restore_part_def newOutputs_def removed_def map_get_def)

text \<open>
  Claim C8. For every sequence of input lines the parser returns what the reference
  parser \<open>parse_ref\<close> returns: one output per header line, in input order, whose
  resolutions are the mode lines that follow it up to the next header line, in input
  order and not sorted; lines before the first header line, mode lines among them, add
  nothing.
\<close>

theorem parseLines_attaches_modes_in_order:
  "parseLines ls = parse_ref ls \<and>
   parseXrandr (Inr ls) = Inr (parse_ref ls) \<and>
   (list_all (\<lambda>l. outputRe l = None) pre \<longrightarrow> parseLines (pre @ ls) = parseLines ls) \<and>
   (outputRe h = Some (m1, m2, m3) \<and> list_all (\<lambda>l. outputRe l = None) body \<and>
    (rest = [] \<or> outputRe (hd rest) \<noteq> None) \<longrightarrow>
      parseLines (h # body @ rest) =
        \<lparr>Name = m1, Connected = (m2 = ''connected''), Primary = (m3 = ''primary''),
         Resolutions = modes_of body\<rparr> # parseLines rest)"
  by (simp add: parseLines_parse_ref parseXrandr_def parse_ref_no_header parse_ref_block
      del: parse_ref.simps)

theorem parseLines_attaches_modes_in_order_witness:
  "list_all (\<lambda>l. outputRe l = None) [''Screen 0: minimum 320 x 200'', ''   640x480   59.94 ''] \<and>
   outputRe ''eDP-1 connected primary 1920x1080+0+0 (normal left inverted)'' =
     Some (''eDP-1'', ''connected'', ''primary'') \<and>
   list_all (\<lambda>l. outputRe l = None)
     [''   1280x720      60.00*+'', ''   1920x1080     60.00  '', ''      h: width 1920''] \<and>
   outputRe (hd [''HDMI-1 disconnected (normal left inverted)'']) \<noteq> None \<and>
   parseLines
     [''Screen 0: minimum 320 x 200'', ''   640x480   59.94 '',
      ''eDP-1 connected primary 1920x1080+0+0 (normal left inverted)'',
      ''   1280x720      60.00*+'', ''   1920x1080     60.00  '', ''      h: width 1920'',
      ''HDMI-1 disconnected (normal left inverted)''] =
     [\<lparr>Name = ''eDP-1'', Connected = True, Primary = True,
       Resolutions = [\<lparr>W = 1280, H = 720\<rparr>, \<lparr>W = 1920, H = 1080\<rparr>]\<rparr>,
      \<lparr>Name = ''HDMI-1'', Connected = False, Primary = False, Resolutions = []\<rparr>]"
proof -
  let ?pre = "[''Screen 0: minimum 320 x 200'', ''   640x480   59.94 '']"
  let ?h = "''eDP-1 connected primary 1920x1080+0+0 (normal left inverted)''"
  let ?body = "[''   1280x720      60.00*+'', ''   1920x1080     60.00  '', ''      h: width 1920'']"
  let ?rest = "[''HDMI-1 disconnected (normal left inverted)'']"
  have pre: "list_all (\<lambda>l. outputRe l = None) ?pre"
    by (simp add: outputRe_def is_space_def has_prefix_def)
  have h: "outputRe ?h = Some (''eDP-1'', ''connected'', ''primary'')"
    by (simp add: outputRe_def is_space_def has_prefix_def)
  have body: "list_all (\<lambda>l. outputRe l = None) ?body"
    by (simp add: outputRe_def is_space_def has_prefix_def)
  have rest: "outputRe (hd ?rest) = Some (''HDMI-1'', ''disconnected'', [])"
    by (simp add: outputRe_def is_space_def has_prefix_def)
  have modes: "modes_of ?body = [\<lparr>W = 1280, H = 720\<rparr>, \<lparr>W = 1920, H = 1080\<rparr>]"
    by (simp add: mode_of_def modeRe_def is_space_def is_digit_def has_prefix_def atoi_def)
  have last: "parseLines ?rest = [\<lparr>Name = ''HDMI-1'', Connected = False, Primary = False, Resolutions = []\<rparr>]"
    using rest by (simp add: parseLines_def scan_line_def)
  have "parseLines (?pre @ ?h # ?body @ ?rest) = parseLines (?h # ?body @ ?rest)"
    using parseLines_attaches_modes_in_order [of "?h # ?body @ ?rest" ?pre] pre by blast
  moreover have "parseLines (?h # ?body @ ?rest) =
      \<lparr>Name = ''eDP-1'', Connected = (''connected'' = ''connected''), Primary = (''primary'' = ''primary''),
       Resolutions = modes_of ?body\<rparr> # parseLines ?rest"
    using parseLines_attaches_modes_in_order [of _ _ ?h "''eDP-1''" "''connected''" "''primary''" ?body ?rest]
      h body rest by blast
  ultimately have "parseLines (?pre @ ?h # ?body @ ?rest) =
     [\<lparr>Name = ''eDP-1'', Connected = True, Primary = True,
       Resolutions = [\<lparr>W = 1280, H = 720\<rparr>, \<lparr>W = 1920, H = 1080\<rparr>]\<rparr>,
      \<lparr>Name = ''HDMI-1'', Connected = False, Primary = False, Resolutions = []\<rparr>]"
    by (simp only: modes last) simp
  then show ?thesis
    using pre h body rest by simp
qed

text \<open>
  Claim C9. When outputs newly appear but the partition leaves no externals, as when at
  most one output is connected, the pass issues no MirrorAction.
\<close>

theorem no_externals_no_mirror:
  assumes "newOutputs prevSet (connectedSet cur) \<noteq> []"
    and "fst (snd (identify cur)) = [] \<or> length (filter Connected cur) \<le> 1"
  shows "filter is_MirrorAction (fst (tick env (prev, prevSet) (Inr cur))) = []"
proof -
  have "fst (snd (identify cur)) = []"
    using assms(2) externals_empty_if_at_most_one by blast
  then have "mirror_part env prevSet cur = []"
    by (simp add: mirror_part_cases)
  then show ?thesis
    by (simp add: tick_actions filter_mirror_restore_part)
qed

theorem no_externals_no_mirror_witness:
  "newOutputs [] (connectedSet
     [\<lparr>Name = ''eDP-1'', Connected = True, Primary = True, Resolutions = [\<lparr>W = 1920, H = 1080\<rparr>]\<rparr>,
      \<lparr>Name = ''HDMI-1'', Connected = False, Primary = False, Resolutions = []\<rparr>]) = [''eDP-1''] \<and>
   length (filter Connected
     [\<lparr>Name = ''eDP-1'', Connected = True, Primary = True, Resolutions = [\<lparr>W = 1920, H = 1080\<rparr>]\<rparr>,
      \<lparr>Name = ''HDMI-1'', Connected = False, Primary = False, Resolutions = []\<rparr>]) = 1 \<and>
   filter is_MirrorAction (fst (tick example_env ([], [])
     (Inr [\<lparr>Name = ''eDP-1'', Connected = True, Primary = True, Resolutions = [\<lparr>W = 1920, H = 1080\<rparr>]\<rparr>,
           \<lparr>Name = ''HDMI-1'', Connected = False, Primary = False, Resolutions = []\<rparr>]))) = []"
proof -
  let ?cur = "[\<lparr>Name = ''eDP-1'', Connected = True, Primary = True, Resolutions = [\<lparr>W = 1920, H = 1080\<rparr>]\<rparr>,
      \<lparr>Name = ''HDMI-1'', Connected = False, Primary = False, Resolutions = []\<rparr>]"
  have new: "newOutputs [] (connectedSet ?cur) = [''eDP-1'']"
    by (simp add: newOutputs_def connectedSet_def map_put_def map_get_def)
  have one: "length (filter Connected ?cur) = 1"
    by simp
  show ?thesis
    using no_externals_no_mirror [of "[]" ?cur example_env "[]"] new one by simp
qed

text \<open>
  Claim C10 (as stated by the specification, refuted). The parser delivers a snapshot in
  which two connected outputs have the primary flag. DP-3 appears; the later flagged output
  becomes the primary and the earlier one, DP-1, is connected but is not among the
  externals of the MirrorAction.
\<close>

theorem second_flagged_output_is_left_out_counterexample:
  "parseLines
     [''DP-1 connected primary 1920x1080+0+0'', ''   1920x1080     60.00 '',
      ''DP-2 connected primary 1920x1080+0+0'', ''   1920x1080     60.00 '',
      ''DP-3 connected 1920x1080+0+0'', ''   1920x1080     60.00 ''] =
     [\<lparr>Name = ''DP-1'', Connected = True, Primary = True, Resolutions = [\<lparr>W = 1920, H = 1080\<rparr>]\<rparr>,
      \<lparr>Name = ''DP-2'', Connected = True, Primary = True, Resolutions = [\<lparr>W = 1920, H = 1080\<rparr>]\<rparr>,
      \<lparr>Name = ''DP-3'', Connected = True, Primary = False, Resolutions = [\<lparr>W = 1920, H = 1080\<rparr>]\<rparr>] \<and>
   fst (tick example_env ([], [''DP-1'', ''DP-2''])
     (Inr [\<lparr>Name = ''DP-1'', Connected = True, Primary = True, Resolutions = [\<lparr>W = 1920, H = 1080\<rparr>]\<rparr>,
           \<lparr>Name = ''DP-2'', Connected = True, Primary = True, Resolutions = [\<lparr>W = 1920, H = 1080\<rparr>]\<rparr>,
           \<lparr>Name = ''DP-3'', Connected = True, Primary = False, Resolutions = [\<lparr>W = 1920, H = 1080\<rparr>]\<rparr>])) =
     [MirrorAction
        \<lparr>Name = ''DP-2'', Connected = True, Primary = True, Resolutions = [\<lparr>W = 1920, H = 1080\<rparr>]\<rparr>
        [\<lparr>Name = ''DP-3'', Connected = True, Primary = False, Resolutions = [\<lparr>W = 1920, H = 1080\<rparr>]\<rparr>]
        \<lparr>W = 1920, H = 1080\<rparr>] \<and>
   filter (\<lambda>ou. Name ou \<noteq> ''DP-2'')
     (filter Connected
        [\<lparr>Name = ''DP-1'', Connected = True, Primary = True, Resolutions = [\<lparr>W = 1920, H = 1080\<rparr>]\<rparr>,
         \<lparr>Name = ''DP-2'', Connected = True, Primary = True, Resolutions = [\<lparr>W = 1920, H = 1080\<rparr>]\<rparr>,
         \<lparr>Name = ''DP-3'', Connected = True, Primary = False, Resolutions = [\<lparr>W = 1920, H = 1080\<rparr>]\<rparr>]) =
     [\<lparr>Name = ''DP-1'', Connected = True, Primary = True, Resolutions = [\<lparr>W = 1920, H = 1080\<rparr>]\<rparr>,
      \<lparr>Name = ''DP-3'', Connected = True, Primary = False, Resolutions = [\<lparr>W = 1920, H = 1080\<rparr>]\<rparr>]"
proof -
  let ?a = "\<lparr>Name = ''DP-1'', Connected = True, Primary = True, Resolutions = [\<lparr>W = 1920, H = 1080\<rparr>]\<rparr>"
  let ?b = "\<lparr>Name = ''DP-2'', Connected = True, Primary = True, Resolutions = [\<lparr>W = 1920, H = 1080\<rparr>]\<rparr>"
  let ?c = "\<lparr>Name = ''DP-3'', Connected = True, Primary = False, Resolutions = [\<lparr>W = 1920, H = 1080\<rparr>]\<rparr>"
  have h1: "outputRe ''DP-1 connected primary 1920x1080+0+0'' = Some (''DP-1'', ''connected'', ''primary'')"
    by (simp add: outputRe_def is_space_def has_prefix_def)
  have h2: "outputRe ''DP-2 connected primary 1920x1080+0+0'' = Some (''DP-2'', ''connected'', ''primary'')"
    by (simp add: outputRe_def is_space_def has_prefix_def)
  have h3: "outputRe ''DP-3 connected 1920x1080+0+0'' = Some (''DP-3'', ''connected'', [])"
    by (simp add: outputRe_def is_space_def has_prefix_def)
  have m0: "outputRe ''   1920x1080     60.00 '' = None"
    by (simp add: outputRe_def is_space_def has_prefix_def)
  have m1: "mode_of ''   1920x1080     60.00 '' = [\<lparr>W = 1920, H = 1080\<rparr>]"
    by (simp add: mode_of_def modeRe_def is_space_def is_digit_def has_prefix_def atoi_def)
  have parsed: "parseLines
     [''DP-1 connected primary 1920x1080+0+0'', ''   1920x1080     60.00 '',
      ''DP-2 connected primary 1920x1080+0+0'', ''   1920x1080     60.00 '',
      ''DP-3 connected 1920x1080+0+0'', ''   1920x1080     60.00 ''] = [?a, ?b, ?c]"
    by (simp add: parseLines_parse_ref h1 h2 h3 m0 m1)
  have best: "bestCommonResolution example_env [?a, ?b, ?c] = \<lparr>W = 1920, H = 1080\<rparr>"
    by (simp add: bestCommonResolution_def example_env_def insertion_sort_def intersect_with_def
        map_put_def map_get_def map_delete_def)
  have acts: "fst (tick example_env ([], [''DP-1'', ''DP-2'']) (Inr [?a, ?b, ?c])) =
      [MirrorAction ?b [?c] \<lparr>W = 1920, H = 1080\<rparr>]"
    by (simp add: tick_def mirror_part_def restore_part_def newOutputs_def removed_def
        connectedSet_def map_put_def map_get_def identify_def identify_step_def zero_output_def best)
  have others: "filter (\<lambda>ou. Name ou \<noteq> ''DP-2'') (filter Connected [?a, ?b, ?c]) = [?a, ?c]"
    by simp
  from parsed acts others show ?thesis
    by (intro conjI)
qed

text \<open>
  Claim C10 (amended). Whenever a MirrorAction is issued, its primary is a connected output
  of the current snapshot and its resolution is \<^verbatim>\<open>bestCommonResolution\<close> of the list
  \<^verbatim>\<open>all\<close>, which is the list of the connected outputs in snapshot order. When moreover
  the names of the connected outputs are distinct and at most one connected output has the
  primary flag, its externals are exactly the other connected outputs in snapshot order,
  and the primary is not among them.
\<close>

theorem mirror_action_partition:
  assumes "MirrorAction p ext r \<in> set (fst (tick env (prev, prevSet) (Inr cur)))"
  shows "p \<in> set cur \<and> Connected p \<and>
         snd (snd (identify cur)) = filter Connected cur \<and>
         r = bestCommonResolution env (snd (snd (identify cur))) \<and>
         (distinct (map Name (filter Connected cur)) \<and>
          length (filter (\<lambda>ou. Connected ou \<and> Primary ou) cur) \<le> 1 \<longrightarrow>
            ext = filter (\<lambda>ou. Name ou \<noteq> Name p) (filter Connected cur) \<and> p \<notin> set ext)"
proof -
  from mirror_action_emitted [OF assms]
  have p: "p = fst (identify cur)" and ext: "ext = fst (snd (identify cur))"
    and ne: "fst (snd (identify cur)) \<noteq> []"
    and r: "r = bestCommonResolution env (filter Connected cur)"
    by auto
  have "p \<in> set (filter Connected cur)"
    using identify_primary_connected [OF ne] by (simp only: p)
  then have conn: "p \<in> set cur \<and> Connected p"
    by simp
  have others: "ext = filter (\<lambda>ou. Name ou \<noteq> Name p) (filter Connected cur) \<and> p \<notin> set ext"
    if "distinct (map Name (filter Connected cur))"
      and "length (filter (\<lambda>ou. Connected ou \<and> Primary ou) cur) \<le> 1"
    unfolding p ext by (rule identify_externals_others [OF ne that])
  from conn r others show ?thesis
    by (simp add: identify_all)
qed

theorem mirror_action_partition_witness:
  "fst (tick example_env ([], [''eDP-1''])
     (Inr [\<lparr>Name = ''eDP-1'', Connected = True, Primary = True,
             Resolutions = [\<lparr>W = 1920, H = 1080\<rparr>, \<lparr>W = 1280, H = 720\<rparr>]\<rparr>,
           \<lparr>Name = ''DP-1'', Connected = False, Primary = False, Resolutions = []\<rparr>,
           \<lparr>Name = ''HDMI-1'', Connected = True, Primary = False,
             Resolutions = [\<lparr>W = 1280, H = 720\<rparr>]\<rparr>])) =
     [MirrorAction
        \<lparr>Name = ''eDP-1'', Connected = True, Primary = True,
          Resolutions = [\<lparr>W = 1920, H = 1080\<rparr>, \<lparr>W = 1280, H = 720\<rparr>]\<rparr>
        [\<lparr>Name = ''HDMI-1'', Connected = True, Primary = False, Resolutions = [\<lparr>W = 1280, H = 720\<rparr>]\<rparr>]
        \<lparr>W = 1280, H = 720\<rparr>] \<and>
   [\<lparr>Name = ''HDMI-1'', Connected = True, Primary = False, Resolutions = [\<lparr>W = 1280, H = 720\<rparr>]\<rparr>] =
     filter (\<lambda>ou. Name ou \<noteq> ''eDP-1'')
       (filter Connected
          [\<lparr>Name = ''eDP-1'', Connected = True, Primary = True,
             Resolutions = [\<lparr>W = 1920, H = 1080\<rparr>, \<lparr>W = 1280, H = 720\<rparr>]\<rparr>,
           \<lparr>Name = ''DP-1'', Connected = False, Primary = False, Resolutions = []\<rparr>,
           \<lparr>Name = ''HDMI-1'', Connected = True, Primary = False,
             Resolutions = [\<lparr>W = 1280, H = 720\<rparr>]\<rparr>])"
proof -
  let ?e = "\<lparr>Name = ''eDP-1'', Connected = True, Primary = True,
             Resolutions = [\<lparr>W = 1920, H = 1080\<rparr>, \<lparr>W = 1280, H = 720\<rparr>]\<rparr>"
  let ?d = "\<lparr>Name = ''DP-1'', Connected = False, Primary = False, Resolutions = []\<rparr>"
  let ?h = "\<lparr>Name = ''HDMI-1'', Connected = True, Primary = False, Resolutions = [\<lparr>W = 1280, H = 720\<rparr>]\<rparr>"
  have best: "bestCommonResolution example_env [?e, ?h] = \<lparr>W = 1280, H = 720\<rparr>"
    by (simp add: bestCommonResolution_def example_env_def insertion_sort_def intersect_with_def
        map_put_def map_get_def map_delete_def)
  have acts: "fst (tick example_env ([], [''eDP-1'']) (Inr [?e, ?d, ?h])) =
      [MirrorAction ?e [?h] \<lparr>W = 1280, H = 720\<rparr>]"
    by (simp add: tick_def mirror_part_def restore_part_def newOutputs_def removed_def
        connectedSet_def map_put_def map_get_def identify_def identify_step_def zero_output_def best)
  have emitted: "MirrorAction ?e [?h] \<lparr>W = 1280, H = 720\<rparr>
      \<in> set (fst (tick example_env ([], [''eDP-1'']) (Inr [?e, ?d, ?h])))"
    by (simp only: acts) simp
  have names: "distinct (map Name (filter Connected [?e, ?d, ?h]))"
    by simp
  have flagged: "length (filter (\<lambda>ou. Connected ou \<and> Primary ou) [?e, ?d, ?h]) \<le> 1"
    by simp
  have "[?h] = filter (\<lambda>ou. Name ou \<noteq> Name ?e) (filter Connected [?e, ?d, ?h])"
    using mirror_action_partition [OF emitted] names flagged by blast
  then have "[?h] = filter (\<lambda>ou. Name ou \<noteq> ''eDP-1'') (filter Connected [?e, ?d, ?h])"
    by (simp only: output_rec.simps)
  with acts show ?thesis
    by (rule conjI)
qed

end
